theory Spec2Isabelle
  imports Main
begin

section \<open>JavaScript values and the conversions the tool layer relies on\<close>

text \<open>
  The tools of \<^verbatim>\<open>tools.js\<close> receive the parsed JSON input of an action.  A value is
  what \<^verbatim>\<open>JSON.parse\<close> can produce, plus \<^verbatim>\<open>undefined\<close> for an absent property or
  argument.  Numbers are the integral ones; strings are lists of code units; an object is
  the list of its own properties in the order \<^verbatim>\<open>Object.keys\<close> enumerates them.
\<close>

datatype jsval =
    Undefined
  | Null
  | Bool bool
  | Num int
  | Str string
  | Arr "jsval list"
  | Obj "(string \<times> jsval) list"

text \<open>
  Every exception of the source is an \<^verbatim>\<open>Error\<close> object; the constructor records which
  \<^verbatim>\<open>throw\<close> raised it.  \<open>TypeError\<close> stands for the errors the runtime itself raises
  (a property read on \<^verbatim>\<open>null\<close>, a call of something that is no function, a failed
  string conversion), with a text that stands for the runtime's own, which is never empty;
  \<open>StoreError\<close> is the rejection of \<^verbatim>\<open>pool.query\<close>, with the text the store reports.
\<close>

datatype error =
    InvalidIdentifier string
  | InvalidInput
  | UnsupportedType string
  | EmptyInput string
  | NothingToUpdate
  | InvalidUpdate
  | InvalidSchemaChange
  | UnsupportedConstraint string
  | UnsupportedOperator string
  | InvalidJoinType string
  | InvalidJoinCondition
  | CatalogQueryFailed string
  | StoreError string
  | TypeError string

definition andThen :: "error + 'a \<Rightarrow> ('a \<Rightarrow> error + 'b) \<Rightarrow> error + 'b" where
  "andThen r f = (case r of Inl e \<Rightarrow> Inl e | Inr v \<Rightarrow> f v)"

fun truthy :: "jsval \<Rightarrow> bool" where
  "truthy Undefined = False"
| "truthy Null = False"
| "truthy (Bool b) = b"
| "truthy (Num n) = (n \<noteq> 0)"
| "truthy (Str s) = (s \<noteq> [])"
| "truthy (Arr xs) = True"
| "truthy (Obj kvs) = True"

fun isArray :: "jsval \<Rightarrow> bool" where
  "isArray (Arr xs) = True"
| "isArray v = False"

subsection \<open>Decimal rendering of numbers\<close>

definition digit_char :: "nat \<Rightarrow> char" where
  "digit_char d = char_of (48 + d)"

fun show_nat :: "nat \<Rightarrow> string" where
  "show_nat n = (if n < 10 then [digit_char n] else show_nat (n div 10) @ [digit_char (n mod 10)])"

declare show_nat.simps [simp del]

definition show_int :: "int \<Rightarrow> string" where
  "show_int i = (if i < 0 then CHR ''-'' # show_nat (nat (- i)) else show_nat (nat i))"

subsection \<open>String conversion (template literals, \<^verbatim>\<open>RegExp.prototype.test\<close>)\<close>

fun intercalate :: "string \<Rightarrow> string list \<Rightarrow> string" where
  "intercalate sep [] = []"
| "intercalate sep [x] = x"
| "intercalate sep (x # y # ys) = x @ sep @ intercalate sep (y # ys)"

text \<open>
  \<^verbatim>\<open>ToString\<close>: an array is joined with commas, \<^verbatim>\<open>null\<close> and \<^verbatim>\<open>undefined\<close> elements
  giving the empty string; a plain object gives \<^verbatim>\<open>[object Object]\<close>, unless it has an own
  property \<^verbatim>\<open>toString\<close>, which for parsed JSON is never callable, so that the conversion
  raises a \<^verbatim>\<open>TypeError\<close>.
\<close>

fun toString :: "jsval \<Rightarrow> error + string"
  and joinElems :: "jsval list \<Rightarrow> error + string list" where
  "toString Undefined = Inr ''undefined''"
| "toString Null = Inr ''null''"
| "toString (Bool b) = Inr (if b then ''true'' else ''false'')"
| "toString (Num n) = Inr (show_int n)"
| "toString (Str s) = Inr s"
| "toString (Arr xs) =
     (case joinElems xs of Inl e \<Rightarrow> Inl e | Inr ss \<Rightarrow> Inr (intercalate '','' ss))"
| "toString (Obj kvs) =
     (if ''toString'' \<in> set (map fst kvs)
      then Inl (TypeError ''Cannot convert object to primitive value'')
      else Inr ''[object Object]'')"
| "joinElems [] = Inr []"
| "joinElems (x # xs) =
     (case (if x = Undefined \<or> x = Null then Inr [] else toString x) of
        Inl e \<Rightarrow> Inl e
      | Inr s \<Rightarrow> (case joinElems xs of Inl e \<Rightarrow> Inl e | Inr ss \<Rightarrow> Inr (s # ss)))"

section \<open>Regular expressions\<close>

text \<open>
  The fragment of regular expressions the source uses: character classes given by
  ranges of code units, sequence and iteration.  \<open>test\<close> decides whether the whole
  string matches, which is what a pattern anchored by \<^verbatim>\<open>^\<close> and \<^verbatim>\<open>$\<close> (without the
  multiline flag) asks for.  Matching is by derivatives.
\<close>

datatype regex =
    Never
  | Empty
  | Class "(char \<times> char) list"
  | Alt regex regex
  | Seq regex regex
  | Star regex

definition in_range :: "char \<Rightarrow> char \<times> char \<Rightarrow> bool" where
  "in_range c r = ((of_char (fst r) :: nat) \<le> of_char c \<and> (of_char c :: nat) \<le> of_char (snd r))"

definition in_class :: "(char \<times> char) list \<Rightarrow> char \<Rightarrow> bool" where
  "in_class rs c = list_ex (in_range c) rs"

fun nullable :: "regex \<Rightarrow> bool" where
  "nullable Never = False"
| "nullable Empty = True"
| "nullable (Class rs) = False"
| "nullable (Alt r s) = (nullable r \<or> nullable s)"
| "nullable (Seq r s) = (nullable r \<and> nullable s)"
| "nullable (Star r) = True"

fun deriv :: "char \<Rightarrow> regex \<Rightarrow> regex" where
  "deriv c Never = Never"
| "deriv c Empty = Never"
| "deriv c (Class rs) = (if in_class rs c then Empty else Never)"
| "deriv c (Alt r s) = Alt (deriv c r) (deriv c s)"
| "deriv c (Seq r s) =
     (if nullable r then Alt (Seq (deriv c r) s) (deriv c s) else Seq (deriv c r) s)"
| "deriv c (Star r) = Seq (deriv c r) (Star r)"

fun test :: "regex \<Rightarrow> string \<Rightarrow> bool" where
  "test r [] = nullable r"
| "test r (c # cs) = test (deriv c r) cs"

section \<open>The name validator\<close>

text \<open>The pattern \<^verbatim>\<open>/^[a-zA-Z_][a-zA-Z0-9_]*$/\<close> of \<^verbatim>\<open>validateName\<close>.\<close>

definition name_pattern :: regex where
  "name_pattern =
     Seq (Class [(CHR ''a'', CHR ''z''), (CHR ''A'', CHR ''Z''), (CHR ''_'', CHR ''_'')])
         (Star (Class [(CHR ''a'', CHR ''z''), (CHR ''A'', CHR ''Z''), (CHR ''0'', CHR ''9''),
                       (CHR ''_'', CHR ''_'')]))"

text \<open>
  \<^verbatim>\<open>validateName\<close> converts its argument to a string, as \<^verbatim>\<open>test\<close> does, and throws
  unless the pattern matches.  It touches nothing but its argument.
\<close>

definition validateName :: "jsval \<Rightarrow> error + unit" where
  "validateName name =
     (case toString name of
        Inl e \<Rightarrow> Inl e
      | Inr s \<Rightarrow> if \<not> test name_pattern s then Inl (InvalidIdentifier s) else Inr ())"


section \<open>Reading values\<close>

text \<open>
  A property read throws on \<^verbatim>\<open>null\<close> and \<^verbatim>\<open>undefined\<close>.  The names the source reads
  are own properties of an object or, for \<^verbatim>\<open>length\<close>, of an array or a string;
  elements are read with \<open>index\<close>.
\<close>

definition getProp :: "jsval \<Rightarrow> string \<Rightarrow> error + jsval" where
  "getProp v k =
     (case v of
        Undefined \<Rightarrow> Inl (TypeError (''Cannot read properties of undefined (reading '' @ k @ '')''))
      | Null \<Rightarrow> Inl (TypeError (''Cannot read properties of null (reading '' @ k @ '')''))
      | Obj kvs \<Rightarrow> Inr (case map_of kvs k of Some x \<Rightarrow> x | None \<Rightarrow> Undefined)
      | Arr xs \<Rightarrow> Inr (if k = ''length'' then Num (int (length xs)) else Undefined)
      | Str s \<Rightarrow> Inr (if k = ''length'' then Num (int (length s)) else Undefined)
      | _ \<Rightarrow> Inr Undefined)"

definition index :: "jsval list \<Rightarrow> nat \<Rightarrow> jsval" where
  "index xs i = (if i < length xs then xs ! i else Undefined)"

text \<open>\<^verbatim>\<open>Object.entries\<close>; \<^verbatim>\<open>Object.keys\<close> and \<^verbatim>\<open>Object.values\<close> are its projections.\<close>

definition entries :: "jsval \<Rightarrow> error + (string \<times> jsval) list" where
  "entries v =
     (case v of
        Undefined \<Rightarrow> Inl (TypeError ''Cannot convert undefined or null to object'')
      | Null \<Rightarrow> Inl (TypeError ''Cannot convert undefined or null to object'')
      | Obj kvs \<Rightarrow> Inr kvs
      | Arr xs \<Rightarrow> Inr (zip (map show_nat [0..<length xs]) xs)
      | Str s \<Rightarrow> Inr (zip (map show_nat [0..<length s]) (map (\<lambda>c. Str [c]) s))
      | _ \<Rightarrow> Inr [])"

definition keys :: "jsval \<Rightarrow> error + string list" where
  "keys v = andThen (entries v) (\<lambda>kvs. Inr (map fst kvs))"

definition vals :: "jsval \<Rightarrow> error + jsval list" where
  "vals v = andThen (entries v) (\<lambda>kvs. Inr (map snd kvs))"

text \<open>
  \<^verbatim>\<open>a === b\<close>, where one side is a primitive: objects and arrays are compared by
  identity and equal no primitive.
\<close>

definition strictEq :: "jsval \<Rightarrow> jsval \<Rightarrow> bool" where
  "strictEq a b = (case a of Arr xs \<Rightarrow> False | Obj kvs \<Rightarrow> False | _ \<Rightarrow> a = b)"

definition upper_char :: "char \<Rightarrow> char" where
  "upper_char c =
     (if (97::nat) \<le> of_char c \<and> (of_char c :: nat) \<le> 122 then char_of (of_char c - (32::nat)) else c)"

text \<open>
  \<^verbatim>\<open>v.toUpperCase()\<close>: a method of strings only.  The letters \<^verbatim>\<open>a\<close> to \<^verbatim>\<open>z\<close> are
  mapped; every other code unit is kept.
\<close>

definition toUpperCase :: "jsval \<Rightarrow> error + string" where
  "toUpperCase v =
     (case v of
        Str s \<Rightarrow> Inr (map upper_char s)
      | Undefined \<Rightarrow> Inl (TypeError ''Cannot read properties of undefined (reading toUpperCase)'')
      | Null \<Rightarrow> Inl (TypeError ''Cannot read properties of null (reading toUpperCase)'')
      | _ \<Rightarrow> Inl (TypeError ''toUpperCase is not a function''))"

fun mapE :: "('a \<Rightarrow> error + 'b) \<Rightarrow> 'a list \<Rightarrow> error + 'b list" where
  "mapE f [] = Inr []"
| "mapE f (x # xs) =
     (case f x of
        Inl e \<Rightarrow> Inl e
      | Inr y \<Rightarrow> (case mapE f xs of Inl e \<Rightarrow> Inl e | Inr ys \<Rightarrow> Inr (y # ys)))"

fun filterE :: "('a \<Rightarrow> error + bool) \<Rightarrow> 'a list \<Rightarrow> error + 'a list" where
  "filterE p [] = Inr []"
| "filterE p (x # xs) =
     (case p x of
        Inl e \<Rightarrow> Inl e
      | Inr b \<Rightarrow> (case filterE p xs of Inl e \<Rightarrow> Inl e | Inr ys \<Rightarrow> Inr (if b then x # ys else ys)))"

section \<open>The store and the result of an operation\<close>

record query =
  sql :: string
  params :: "jsval list"

datatype response = Rows "jsval list" | Failed string

text \<open>
  What a call depends on outside \<^verbatim>\<open>tools.js\<close>.  \<open>answer\<close> is the store: its reply to a
  statement, given the statements the call issued before; \<open>Failed m\<close> is a rejection with
  an error of message \<open>m\<close>.  \<open>winner n\<close> tells which of \<open>n\<close> rejected statements
  \<^verbatim>\<open>Promise.all\<close> sees first.  \<open>positive s\<close> is the runtime's \<^verbatim>\<open>ToNumber(s) > 0\<close> for a
  string.
\<close>

record world =
  answer :: "query list \<Rightarrow> query \<Rightarrow> response"
  winner :: "nat \<Rightarrow> nat"
  positive :: "string \<Rightarrow> bool"

record envelope =
  success :: bool
  message :: "string option"
  data :: "jsval list option"
  columns :: "jsval list option"

text \<open>An \<^verbatim>\<open>async\<close> function resolves with its return value or rejects with what it threw.\<close>

datatype outcome = Resolved envelope | Rejected error

definition failure :: "string \<Rightarrow> envelope" where
  "failure m = \<lparr>success = False, message = Some m, data = None, columns = None\<rparr>"

definition succeeded :: "string \<Rightarrow> envelope" where
  "succeeded m = \<lparr>success = True, message = Some m, data = None, columns = None\<rparr>"

definition withData :: "jsval list \<Rightarrow> envelope" where
  "withData rs = \<lparr>success = True, message = None, data = Some rs, columns = None\<rparr>"

definition withColumns :: "jsval list \<Rightarrow> envelope" where
  "withColumns cs = \<lparr>success = True, message = None, data = None, columns = Some cs\<rparr>"

text \<open>\<^verbatim>\<open>await pool.query(text, values)\<close>: the statement joins the log of issued statements.\<close>

definition poolQuery :: "world \<Rightarrow> query list \<Rightarrow> query \<Rightarrow> query list \<times> (error + jsval list)" where
  "poolQuery w issued q =
     (issued @ [q], case answer w issued q of Rows rs \<Rightarrow> Inr rs | Failed m \<Rightarrow> Inl (StoreError m))"

definition quote :: string where
  "quote = [CHR 0x22]"

definition newline :: string where
  "newline = [CHR 0x0A]"

fun errorMessage :: "error \<Rightarrow> string" where
  "errorMessage (InvalidIdentifier s) = ''Invalid table/schema name: '' @ s"
| "errorMessage InvalidInput =
     ''The '' @ quote @ ''columns'' @ quote @ '' parameter must be a non-empty array.''"
| "errorMessage (UnsupportedType s) = ''Unsupported column type: '' @ s"
| "errorMessage (EmptyInput m) = m"
| "errorMessage NothingToUpdate =
     ''Either 'updates' or 'schemaChanges' must be provided.''"
| "errorMessage InvalidUpdate =
     ''Each update must have an '' @ quote @ ''id'' @ quote @ '' and non-empty '' @ quote @ ''data''
       @ quote @ ''.''"
| "errorMessage InvalidSchemaChange =
     ''Each schema change must have a '' @ quote @ ''column'' @ quote @ '' and either '' @ quote
       @ ''type'' @ quote @ '' or '' @ quote @ ''constraint'' @ quote @ ''.''"
| "errorMessage (UnsupportedConstraint s) = ''Unsupported constraint: '' @ s"
| "errorMessage (UnsupportedOperator k) = ''Unsupported operator in criteria for key: '' @ k"
| "errorMessage (InvalidJoinType s) =
     ''Invalid join type: '' @ s @ ''. Allowed: INNER, LEFT, RIGHT, FULL''"
| "errorMessage InvalidJoinCondition =
     ''Join condition must be provided as a valid SQL condition string.''"
| "errorMessage (CatalogQueryFailed m) = ''Error checking table existence: '' @ m"
| "errorMessage (StoreError m) = m"
| "errorMessage (TypeError m) = m"

section \<open>Creating a table\<close>

definition defaultColumns :: "jsval list" where
  "defaultColumns =
     [Obj [(''name'', Str ''id''), (''type'', Str ''integer''), (''primaryKey'', Bool True)],
      Obj [(''name'', Str ''created_at''), (''type'', Str ''timestamp'')],
      Obj [(''name'', Str ''updated_at''), (''type'', Str ''timestamp'')]]"

text \<open>\<^verbatim>\<open>defaultCol.name === col.name\<close>\<close>

definition sameName :: "jsval \<Rightarrow> jsval \<Rightarrow> error + bool" where
  "sameName col defaultCol =
     andThen (getProp defaultCol ''name'') (\<lambda>dn.
     andThen (getProp col ''name'') (\<lambda>cn. Inr (strictEq dn cn)))"

fun someE :: "('a \<Rightarrow> error + bool) \<Rightarrow> 'a list \<Rightarrow> error + bool" where
  "someE p [] = Inr False"
| "someE p (x # xs) =
     (case p x of Inl e \<Rightarrow> Inl e | Inr b \<Rightarrow> if b then Inr True else someE p xs)"

definition allColumns :: "jsval list \<Rightarrow> error + jsval list" where
  "allColumns cols =
     andThen (filterE (\<lambda>col. andThen (someE (sameName col) defaultColumns) (\<lambda>b. Inr (\<not> b))) cols)
       (\<lambda>kept. Inr (defaultColumns @ kept))"

text \<open>The \<^verbatim>\<open>switch (col.type)\<close> of \<^verbatim>\<open>createDynamicTable\<close>.\<close>

definition columnDefinition :: "jsval \<Rightarrow> error + string" where
  "columnDefinition col =
     andThen (getProp col ''type'') (\<lambda>ty.
       if strictEq (Str ''integer'') ty then
         andThen (getProp col ''name'') (\<lambda>n. andThen (toString n) (\<lambda>ns.
         andThen (getProp col ''primaryKey'') (\<lambda>pk.
           Inr (ns @ '' SERIAL'' @ (if truthy pk then '' PRIMARY KEY'' else [])))))
       else if strictEq (Str ''text'') ty then
         andThen (getProp col ''name'') (\<lambda>n. andThen (toString n) (\<lambda>ns.
           Inr (ns @ '' TEXT NOT NULL'')))
       else if strictEq (Str ''timestamp'') ty then
         andThen (getProp col ''name'') (\<lambda>n. andThen (toString n) (\<lambda>ns.
           Inr (ns @ '' TIMESTAMPTZ DEFAULT NOW()'')))
       else if strictEq (Str ''boolean'') ty then
         andThen (getProp col ''name'') (\<lambda>n. andThen (toString n) (\<lambda>ns.
           Inr (ns @ '' BOOLEAN DEFAULT FALSE'')))
       else if strictEq (Str ''decimal'') ty then
         andThen (getProp col ''name'') (\<lambda>n. andThen (toString n) (\<lambda>ns.
           Inr (ns @ '' DECIMAL(10,2)'')))
       else andThen (toString ty) (\<lambda>ts. Inl (UnsupportedType ts)))"

text \<open>The body of the \<^verbatim>\<open>try\<close> block: the statements issued, and the value returned or thrown.\<close>

definition createDynamicTable_try :: "world \<Rightarrow> jsval \<Rightarrow> jsval \<Rightarrow> query list \<times> (error + envelope)" where
  "createDynamicTable_try w schemaName cols =
     (case validateName schemaName of
        Inl e \<Rightarrow> ([], Inl e)
      | Inr _ \<Rightarrow>
          (case cols of
             Arr cs \<Rightarrow>
               if length cs = 0 then ([], Inl InvalidInput)
               else
                 (case andThen (allColumns cs) (mapE columnDefinition) of
                    Inl e \<Rightarrow> ([], Inl e)
                  | Inr defs \<Rightarrow>
                      (case toString schemaName of
                         Inl e \<Rightarrow> ([], Inl e)
                       | Inr t \<Rightarrow>
                           (case poolQuery w []
                                   \<lparr>sql = ''CREATE TABLE IF NOT EXISTS '' @ t @ '' (''
                                           @ intercalate '', '' defs @ '')'',
                                    params = []\<rparr> of
                              (issued, Inl e) \<Rightarrow> (issued, Inl e)
                            | (issued, Inr _) \<Rightarrow>
                                (issued, Inr (succeeded (t @ '' table created successfully.''))))))
           | _ \<Rightarrow> ([], Inl InvalidInput)))"

text \<open>
  The parameter is destructured before the \<^verbatim>\<open>try\<close> block is entered; the message of the
  \<^verbatim>\<open>catch\<close> block converts \<^verbatim>\<open>schemaName\<close> to a string once more.
\<close>

definition createDynamicTable :: "world \<Rightarrow> jsval \<Rightarrow> query list \<times> outcome" where
  "createDynamicTable w arg =
     (case andThen (getProp arg ''schemaName'') (\<lambda>n.
           andThen (getProp arg ''columns'') (\<lambda>c. Inr (n, c))) of
        Inl e \<Rightarrow> ([], Rejected e)
      | Inr (schemaName, cols) \<Rightarrow>
          (case createDynamicTable_try w schemaName cols of
             (issued, Inr env) \<Rightarrow> (issued, Resolved env)
           | (issued, Inl e) \<Rightarrow>
               (case toString schemaName of
                  Inl e' \<Rightarrow> (issued, Rejected e')
                | Inr t \<Rightarrow> (issued, Resolved (failure (''Failed to create '' @ t @ '' table.''))))))"

section \<open>Reading the columns of a table\<close>

definition existsQuery :: string where
  "existsQuery =
     newline @ ''    SELECT EXISTS ('' @ newline @ ''      SELECT 1 '' @ newline
     @ ''      FROM information_schema.tables '' @ newline @ ''      WHERE table_name = $1''
     @ newline @ ''    ) AS exists;'' @ newline @ ''  ''"

definition columnsQuery :: string where
  "columnsQuery =
     newline @ ''      SELECT column_name, data_type, is_nullable '' @ newline
     @ ''      FROM information_schema.columns '' @ newline @ ''      WHERE table_name = $1;''
     @ newline @ ''    ''"

text \<open>
  \<^verbatim>\<open>checkTableExists\<close> catches what its query or the read of \<^verbatim>\<open>res.rows[0].exists\<close>
  throws, logs it under a label that converts the name to a string, and throws anew.
\<close>

definition checkTableExists :: "world \<Rightarrow> query list \<Rightarrow> jsval \<Rightarrow> query list \<times> (error + jsval)" where
  "checkTableExists w issued tableName =
     (case poolQuery w issued \<lparr>sql = existsQuery, params = [tableName]\<rparr> of
        (issued', r) \<Rightarrow>
          (issued',
           case andThen r (\<lambda>rows. getProp (index rows 0) ''exists'') of
             Inr v \<Rightarrow> Inr v
           | Inl e \<Rightarrow>
               andThen (toString tableName) (\<lambda>t. Inl (CatalogQueryFailed (errorMessage e)))))"

definition columnInfo :: "jsval \<Rightarrow> error + jsval" where
  "columnInfo row =
     andThen (getProp row ''column_name'') (\<lambda>n.
     andThen (getProp row ''data_type'') (\<lambda>t.
     andThen (getProp row ''is_nullable'') (\<lambda>nu.
       Inr (Obj [(''name'', n), (''type'', t), (''nullable'', Bool (strictEq (Str ''YES'') nu))]))))"

definition apostrophe :: string where
  "apostrophe = [CHR 0x27]"

definition getTableColumns_try :: "world \<Rightarrow> jsval \<Rightarrow> query list \<times> (error + envelope)" where
  "getTableColumns_try w tableName =
     (case checkTableExists w [] tableName of
        (issued, Inl e) \<Rightarrow> (issued, Inl e)
      | (issued, Inr tableExists) \<Rightarrow>
          if \<not> truthy tableExists then
            (issued, andThen (toString tableName) (\<lambda>t.
               Inr (failure (''Table '' @ apostrophe @ t @ apostrophe @ '' does not exist.''))))
          else
            (case poolQuery w issued \<lparr>sql = columnsQuery, params = [tableName]\<rparr> of
               (issued', Inl e) \<Rightarrow> (issued', Inl e)
             | (issued', Inr rows) \<Rightarrow>
                 (issued', andThen (mapE columnInfo rows) (\<lambda>cs. Inr (withColumns cs)))))"

definition getTableColumns :: "world \<Rightarrow> jsval \<Rightarrow> query list \<times> outcome" where
  "getTableColumns w arg =
     (case getProp arg ''tableName'' of
        Inl e \<Rightarrow> ([], Rejected e)
      | Inr tableName \<Rightarrow>
          (case getTableColumns_try w tableName of
             (issued, Inr env) \<Rightarrow> (issued, Resolved env)
           | (issued, Inl e) \<Rightarrow>
               (case toString tableName of
                  Inl e' \<Rightarrow> (issued, Rejected e')
                | Inr t \<Rightarrow>
                    (issued, Resolved (failure (''Error fetching columns: '' @ errorMessage e))))))"

section \<open>Inserting rows\<close>

text \<open>
  The placeholder groups of the \<^verbatim>\<open>VALUES\<close> clause, computed from the row index \<open>i\<close> and the
  column index \<open>j\<close> as \<^verbatim>\<open>i * columns.length + j + 1\<close>.
\<close>

definition placeholderNumbers :: "nat \<Rightarrow> nat \<Rightarrow> nat list list" where
  "placeholderNumbers r c = map (\<lambda>i. map (\<lambda>j. i * c + j + 1) [0..<c]) [0..<r]"

definition placeholder :: "nat \<Rightarrow> string" where
  "placeholder n = ''$'' @ show_nat n"

definition tuple :: "nat list \<Rightarrow> string" where
  "tuple ns = ''('' @ intercalate '', '' (map placeholder ns) @ '')''"

definition insertStatement :: "string \<Rightarrow> jsval list \<Rightarrow> error + query" where
  "insertStatement t rows =
     andThen (keys (index rows 0)) (\<lambda>cols.
     andThen (mapE vals rows) (\<lambda>vss.
       Inr \<lparr>sql = ''INSERT INTO '' @ t @ '' ('' @ intercalate '', '' cols @ '') VALUES ''
                  @ intercalate '', '' (map tuple (placeholderNumbers (length rows) (length cols)))
                  @ '' RETURNING *'',
            params = concat vss\<rparr>))"

text \<open>\<^verbatim>\<open>if (!Array.isArray(data)) data = [data]\<close>\<close>

definition asList :: "jsval \<Rightarrow> jsval list" where
  "asList v = (case v of Arr xs \<Rightarrow> xs | _ \<Rightarrow> [v])"

text \<open>\<^verbatim>\<open>!v || (Array.isArray(v) && v.length === 0)\<close>\<close>

definition nothingProvided :: "jsval \<Rightarrow> bool" where
  "nothingProvided v = (\<not> truthy v \<or> (case v of Arr xs \<Rightarrow> length xs = 0 | _ \<Rightarrow> False))"

definition addDataToTable_try :: "world \<Rightarrow> jsval \<Rightarrow> jsval \<Rightarrow> query list \<times> (error + envelope)" where
  "addDataToTable_try w tableName dat =
     (case validateName tableName of
        Inl e \<Rightarrow> ([], Inl e)
      | Inr _ \<Rightarrow>
          if nothingProvided dat then ([], Inl (EmptyInput ''No data provided.''))
          else
            (case andThen (toString tableName) (\<lambda>t. insertStatement t (asList dat)) of
               Inl e \<Rightarrow> ([], Inl e)
             | Inr q \<Rightarrow>
                 (case poolQuery w [] q of
                    (issued, Inl e) \<Rightarrow> (issued, Inl e)
                  | (issued, Inr rows) \<Rightarrow> (issued, Inr (withData rows)))))"

definition addDataToTable :: "world \<Rightarrow> jsval \<Rightarrow> query list \<times> outcome" where
  "addDataToTable w arg =
     (case andThen (getProp arg ''tableName'') (\<lambda>n.
           andThen (getProp arg ''data'') (\<lambda>d. Inr (n, d))) of
        Inl e \<Rightarrow> ([], Rejected e)
      | Inr (tableName, dat) \<Rightarrow>
          (case addDataToTable_try w tableName dat of
             (issued, Inr env) \<Rightarrow> (issued, Resolved env)
           | (issued, Inl e) \<Rightarrow> (issued, Resolved (failure ''Failed to add data.''))))"

section \<open>Removing rows\<close>

definition removeDataFromTable_try :: "world \<Rightarrow> jsval \<Rightarrow> jsval \<Rightarrow> query list \<times> (error + envelope)" where
  "removeDataFromTable_try w tableName ids =
     (case validateName tableName of
        Inl e \<Rightarrow> ([], Inl e)
      | Inr _ \<Rightarrow>
          if nothingProvided ids then ([], Inl (EmptyInput ''No IDs provided.''))
          else
            (case toString tableName of
               Inl e \<Rightarrow> ([], Inl e)
             | Inr t \<Rightarrow>
                 (case poolQuery w []
                         \<lparr>sql = ''DELETE FROM '' @ t @ '' WHERE id = ANY($1) RETURNING *'',
                          params = [Arr (asList ids)]\<rparr> of
                    (issued, Inl e) \<Rightarrow> (issued, Inl e)
                  | (issued, Inr rows) \<Rightarrow> (issued, Inr (withData rows)))))"

definition removeDataFromTable :: "world \<Rightarrow> jsval \<Rightarrow> query list \<times> outcome" where
  "removeDataFromTable w arg =
     (case andThen (getProp arg ''tableName'') (\<lambda>n.
           andThen (getProp arg ''ids'') (\<lambda>i. Inr (n, i))) of
        Inl e \<Rightarrow> ([], Rejected e)
      | Inr (tableName, ids) \<Rightarrow>
          (case removeDataFromTable_try w tableName ids of
             (issued, Inr env) \<Rightarrow> (issued, Resolved env)
           | (issued, Inl e) \<Rightarrow> (issued, Resolved (failure ''Failed to remove data.''))))"

section \<open>Searching\<close>

definition operators :: "(string \<times> string) list" where
  "operators = [(''$lt'', ''<''), (''$gt'', ''>''), (''$lte'', ''<=''), (''$gte'', ''>=''), (''$ne'', ''<>'')]"

text \<open>\<^verbatim>\<open>typeof value === "object" && value !== null\<close>\<close>

definition isObject :: "jsval \<Rightarrow> bool" where
  "isObject v = (case v of Arr xs \<Rightarrow> True | Obj kvs \<Rightarrow> True | _ \<Rightarrow> False)"

text \<open>\<^verbatim>\<open>op in value\<close>, for the operator names: no array has such a property.\<close>

definition hasKey :: "jsval \<Rightarrow> string \<Rightarrow> bool" where
  "hasKey v k = (case v of Obj kvs \<Rightarrow> k \<in> set (map fst kvs) | _ \<Rightarrow> False)"

fun firstOperator :: "jsval \<Rightarrow> (string \<times> string) list \<Rightarrow> (string \<times> string) option" where
  "firstOperator v [] = None"
| "firstOperator v ((op, sqlOp) # rest) =
     (if hasKey v op then Some (op, sqlOp) else firstOperator v rest)"

text \<open>
  The \<^verbatim>\<open>forEach\<close> over the entries of the criteria, with the arrays \<^verbatim>\<open>conditions\<close> and
  \<^verbatim>\<open>values\<close> it appends to.
\<close>

fun buildConditions ::
  "(string \<times> jsval) list \<Rightarrow> string list \<Rightarrow> jsval list \<Rightarrow> error + (string list \<times> jsval list)" where
  "buildConditions [] conditions vs = Inr (conditions, vs)"
| "buildConditions ((key, v) # rest) conditions vs =
     (if isObject v then
        (case firstOperator v operators of
           Some (op, sqlOp) \<Rightarrow>
             andThen (getProp v op) (\<lambda>bound.
               buildConditions rest
                 (conditions @ [key @ '' '' @ sqlOp @ '' $'' @ show_nat (length vs + 1)])
                 (vs @ [bound]))
         | None \<Rightarrow> Inl (UnsupportedOperator key))
      else
        buildConditions rest (conditions @ [key @ '' = $'' @ show_nat (length vs + 1)]) (vs @ [v]))"

definition searchStatement :: "string \<Rightarrow> jsval \<Rightarrow> error + query" where
  "searchStatement t criteria =
     andThen (entries criteria) (\<lambda>kvs.
     andThen (buildConditions kvs [] []) (\<lambda>(conditions, vs).
       Inr \<lparr>sql = ''SELECT * FROM '' @ t
                  @ (if length conditions \<noteq> 0 then '' WHERE '' @ intercalate '' AND '' conditions
                     else []),
            params = vs\<rparr>))"

definition searchDataInTable_try :: "world \<Rightarrow> jsval \<Rightarrow> jsval \<Rightarrow> query list \<times> (error + envelope)" where
  "searchDataInTable_try w tableName criteria =
     (case validateName tableName of
        Inl e \<Rightarrow> ([], Inl e)
      | Inr _ \<Rightarrow>
          (case andThen (toString tableName) (\<lambda>t. searchStatement t criteria) of
             Inl e \<Rightarrow> ([], Inl e)
           | Inr q \<Rightarrow>
               (case poolQuery w [] q of
                  (issued, Inl e) \<Rightarrow> (issued, Inl e)
                | (issued, Inr rows) \<Rightarrow> (issued, Inr (withData rows)))))"

text \<open>A default value of a parameter applies when the property is \<^verbatim>\<open>undefined\<close>.\<close>

definition orDefault :: "jsval \<Rightarrow> jsval \<Rightarrow> jsval" where
  "orDefault v d = (if v = Undefined then d else v)"

definition searchDataInTable :: "world \<Rightarrow> jsval \<Rightarrow> query list \<times> outcome" where
  "searchDataInTable w arg =
     (case andThen (getProp arg ''tableName'') (\<lambda>n.
           andThen (getProp arg ''criteria'') (\<lambda>c. Inr (n, orDefault c (Obj [])))) of
        Inl e \<Rightarrow> ([], Rejected e)
      | Inr (tableName, criteria) \<Rightarrow>
          (case searchDataInTable_try w tableName criteria of
             (issued, Inr env) \<Rightarrow> (issued, Resolved env)
           | (issued, Inl e) \<Rightarrow> (issued, Resolved (failure ''Failed to search data.''))))"

section \<open>Joining\<close>

definition allowedJoins :: "string list" where
  "allowedJoins = [''INNER'', ''LEFT'', ''RIGHT'', ''FULL'']"

definition joinTables_try ::
  "world \<Rightarrow> jsval \<Rightarrow> jsval \<Rightarrow> jsval \<Rightarrow> jsval \<Rightarrow> query list \<times> (error + envelope)" where
  "joinTables_try w table1 table2 joinType onCondition =
     (case andThen (validateName table1) (\<lambda>_.
           andThen (validateName table2) (\<lambda>_.
           andThen (toUpperCase joinType) (\<lambda>u.
             if u \<notin> set allowedJoins
             then andThen (toString joinType) (\<lambda>s. Inl (InvalidJoinType s))
             else
               (case onCondition of
                  Str c \<Rightarrow>
                    if c = [] then Inl InvalidJoinCondition
                    else
                      andThen (toString table1) (\<lambda>t1.
                      andThen (toString table2) (\<lambda>t2.
                        Inr \<lparr>sql = newline @ ''      SELECT * FROM '' @ t1 @ '' '' @ newline
                                   @ ''      '' @ u @ '' JOIN '' @ t2 @ '' '' @ newline
                                   @ ''      ON '' @ c @ newline @ ''    '',
                             params = []\<rparr>))
                | _ \<Rightarrow> Inl InvalidJoinCondition)))) of
        Inl e \<Rightarrow> ([], Inl e)
      | Inr q \<Rightarrow>
          (case poolQuery w [] q of
             (issued, Inl e) \<Rightarrow> (issued, Inl e)
           | (issued, Inr rows) \<Rightarrow> (issued, Inr (withData rows))))"

definition joinTables :: "world \<Rightarrow> jsval \<Rightarrow> query list \<times> outcome" where
  "joinTables w arg =
     (case andThen (getProp arg ''table1'') (\<lambda>t1.
           andThen (getProp arg ''table2'') (\<lambda>t2.
           andThen (getProp arg ''joinType'') (\<lambda>jt.
           andThen (getProp arg ''onCondition'') (\<lambda>oc.
             Inr (t1, t2, orDefault jt (Str ''INNER''), oc))))) of
        Inl e \<Rightarrow> ([], Rejected e)
      | Inr (table1, table2, joinType, onCondition) \<Rightarrow>
          (case joinTables_try w table1 table2 joinType onCondition of
             (issued, Inr env) \<Rightarrow> (issued, Resolved env)
           | (issued, Inl e) \<Rightarrow>
               (issued, Resolved (failure (''Failed to join tables: '' @ errorMessage e)))))"

section \<open>Updating rows and changing the schema\<close>

text \<open>
  One entry of \<^verbatim>\<open>updates\<close>: the entry is destructured, checked, and turned into a
  statement of its own.  \<^verbatim>\<open>.map(([key, _], i) => ...)\<close> numbers the columns from
  \<open>i = 0\<close>; the \<^verbatim>\<open>console.log\<close> before the query converts the id to a string.
\<close>

definition setClause :: "(string \<times> jsval) list \<Rightarrow> string" where
  "setClause kvs =
     intercalate '', ''
       (map (\<lambda>(i, kv). fst kv @ '' = $'' @ show_nat (i + 1)) (zip [0..<length kvs] kvs))"

definition updateStatement :: "string \<Rightarrow> jsval \<Rightarrow> error + query" where
  "updateStatement t entry =
     andThen (getProp entry ''id'') (\<lambda>i.
     andThen (getProp entry ''data'') (\<lambda>d.
       if \<not> truthy i \<or> \<not> truthy d then Inl InvalidUpdate
       else
         andThen (keys d) (\<lambda>ks.
           if length ks = 0 then Inl InvalidUpdate
           else
             andThen (entries d) (\<lambda>kvs.
             andThen (vals d) (\<lambda>vs.
             andThen (toString i) (\<lambda>_.
               Inr \<lparr>sql = ''UPDATE '' @ t @ '' SET '' @ setClause kvs
                          @ '', updated_at = NOW() WHERE id = $'' @ show_nat (length (vs @ [i]))
                          @ '' RETURNING *'',
                    params = vs @ [i]\<rparr>))))))"

text \<open>
  \<^verbatim>\<open>updates.forEach\<close>: every entry's statement is handed to the store at once and its
  promise kept; a throw ends the loop with the earlier statements already issued.
\<close>

fun issueUpdates ::
  "world \<Rightarrow> string \<Rightarrow> query list \<Rightarrow> jsval list \<Rightarrow> query list \<times> (error + response list)" where
  "issueUpdates w t issued [] = (issued, Inr [])"
| "issueUpdates w t issued (entry # rest) =
     (case updateStatement t entry of
        Inl e \<Rightarrow> (issued, Inl e)
      | Inr q \<Rightarrow>
          (case issueUpdates w t (issued @ [q]) rest of
             (issued', r) \<Rightarrow> (issued', andThen r (\<lambda>rs. Inr (answer w issued q # rs)))))"

text \<open>The statements of one schema change, in the order they are pushed.\<close>

definition alterQueries :: "string \<Rightarrow> jsval \<Rightarrow> error + string list" where
  "alterQueries t change =
     andThen (getProp change ''column'') (\<lambda>col.
     andThen (getProp change ''type'') (\<lambda>ty.
     andThen (getProp change ''constraint'') (\<lambda>con.
       if \<not> truthy col \<or> (\<not> truthy ty \<and> \<not> truthy con) then Inl InvalidSchemaChange
       else
         andThen (toString col) (\<lambda>c.
         andThen (if truthy ty
                  then andThen (toString ty) (\<lambda>tys.
                         Inr [''ALTER TABLE '' @ t @ '' ALTER COLUMN '' @ c @ '' SET DATA TYPE '' @ tys])
                  else Inr []) (\<lambda>typeQueries.
         andThen (if truthy con
                  then andThen (toUpperCase con) (\<lambda>u.
                         if u = ''UNIQUE'' then
                           Inr [''ALTER TABLE '' @ t @ '' DROP CONSTRAINT IF EXISTS ''
                                  @ t @ ''_'' @ c @ ''_constraint'',
                                ''ALTER TABLE '' @ t @ '' ADD CONSTRAINT ''
                                  @ t @ ''_'' @ c @ ''_constraint'' @ '' UNIQUE ('' @ c @ '')'']
                         else if u = ''NOT NULL'' then
                           Inr [''ALTER TABLE '' @ t @ '' ALTER COLUMN '' @ c @ '' SET NOT NULL'']
                         else if u = ''NULL'' then
                           Inr [''ALTER TABLE '' @ t @ '' ALTER COLUMN '' @ c @ '' DROP NOT NULL'']
                         else andThen (toString con) (\<lambda>s. Inl (UnsupportedConstraint s)))
                  else Inr []) (\<lambda>constraintQueries.
           Inr (typeQueries @ constraintQueries)))))))"

text \<open>\<^verbatim>\<open>for (const query of alterQueries) await pool.query(query)\<close>\<close>

fun runSequentially :: "world \<Rightarrow> query list \<Rightarrow> string list \<Rightarrow> query list \<times> (error + unit)" where
  "runSequentially w issued [] = (issued, Inr ())"
| "runSequentially w issued (s # ss) =
     (case poolQuery w issued \<lparr>sql = s, params = []\<rparr> of
        (issued', Inl e) \<Rightarrow> (issued', Inl e)
      | (issued', Inr _) \<Rightarrow> runSequentially w issued' ss)"

fun applySchemaChanges ::
  "world \<Rightarrow> string \<Rightarrow> query list \<Rightarrow> jsval list \<Rightarrow> query list \<times> (error + unit)" where
  "applySchemaChanges w t issued [] = (issued, Inr ())"
| "applySchemaChanges w t issued (change # rest) =
     (case alterQueries t change of
        Inl e \<Rightarrow> (issued, Inl e)
      | Inr qs \<Rightarrow>
          (case runSequentially w issued qs of
             (issued', Inl e) \<Rightarrow> (issued', Inl e)
           | (issued', Inr _) \<Rightarrow> applySchemaChanges w t issued' rest))"

text \<open>What a \<^verbatim>\<open>for ... of\<close> loop iterates over: the elements of an array, the characters of a string.\<close>

definition iterate :: "jsval \<Rightarrow> error + jsval list" where
  "iterate v =
     (case v of
        Arr xs \<Rightarrow> Inr xs
      | Str s \<Rightarrow> Inr (map (\<lambda>c. Str [c]) s)
      | _ \<Rightarrow> Inl (TypeError ''schemaChanges is not iterable''))"

text \<open>\<^verbatim>\<open>v > 0\<close>: a number is compared, anything else converted to a number first.\<close>

definition greaterThanZero :: "world \<Rightarrow> jsval \<Rightarrow> error + bool" where
  "greaterThanZero w v =
     (case v of
        Num n \<Rightarrow> Inr (0 < n)
      | Bool b \<Rightarrow> Inr b
      | Undefined \<Rightarrow> Inr False
      | Null \<Rightarrow> Inr False
      | _ \<Rightarrow> andThen (toString v) (\<lambda>s. Inr (positive w s)))"

text \<open>
  \<^verbatim>\<open>Promise.all\<close>: the rows of all statements in the order of the array, or the error of
  the rejection that comes first.
\<close>

definition promiseAll :: "world \<Rightarrow> response list \<Rightarrow> error + jsval list" where
  "promiseAll w rs =
     (let failures = concat (map (\<lambda>r. case r of Failed m \<Rightarrow> [m] | Rows xs \<Rightarrow> []) rs)
      in if failures = []
         then Inr (concat (map (\<lambda>r. case r of Rows xs \<Rightarrow> xs | Failed m \<Rightarrow> []) rs))
         else Inl (StoreError (failures ! (winner w (length failures) mod length failures))))"

definition updateDataInTable_try ::
  "world \<Rightarrow> jsval \<Rightarrow> jsval \<Rightarrow> jsval \<Rightarrow> query list \<times> (error + envelope)" where
  "updateDataInTable_try w tableName updates schemaChanges =
     (case andThen (validateName tableName) (\<lambda>_.
           andThen (toString tableName) (\<lambda>t.
           andThen (getProp updates ''length'') (\<lambda>n.
           andThen (if truthy n then Inr False
                    else andThen (getProp schemaChanges ''length'') (\<lambda>m. Inr (\<not> truthy m))) (\<lambda>neither.
             if neither then Inl NothingToUpdate
             else andThen (greaterThanZero w n) (\<lambda>some. Inr (t, some)))))) of
        Inl e \<Rightarrow> ([], Inl e)
      | Inr (t, some) \<Rightarrow>
          (case (if some
                 then (case updates of
                         Arr es \<Rightarrow> issueUpdates w t [] es
                       | _ \<Rightarrow> ([], Inl (TypeError ''updates.forEach is not a function'')))
                 else ([], Inr [])) of
             (issued, Inl e) \<Rightarrow> (issued, Inl e)
           | (issued, Inr pending) \<Rightarrow>
               (case iterate schemaChanges of
                  Inl e \<Rightarrow> (issued, Inl e)
                | Inr changes \<Rightarrow>
                    (case applySchemaChanges w t issued changes of
                       (issued', Inl e) \<Rightarrow> (issued', Inl e)
                     | (issued', Inr _) \<Rightarrow>
                         (issued', andThen (promiseAll w pending) (\<lambda>rows. Inr (withData rows)))))))"

text \<open>\<^verbatim>\<open>message: error.message || "Failed to update data/schema."\<close>\<close>

definition updateDataInTable :: "world \<Rightarrow> jsval \<Rightarrow> query list \<times> outcome" where
  "updateDataInTable w arg =
     (case andThen (getProp arg ''tableName'') (\<lambda>n.
           andThen (getProp arg ''updates'') (\<lambda>u.
           andThen (getProp arg ''schemaChanges'') (\<lambda>c.
             Inr (n, orDefault u (Arr []), orDefault c (Arr []))))) of
        Inl e \<Rightarrow> ([], Rejected e)
      | Inr (tableName, updates, schemaChanges) \<Rightarrow>
          (case updateDataInTable_try w tableName updates schemaChanges of
             (issued, Inr env) \<Rightarrow> (issued, Resolved env)
           | (issued, Inl e) \<Rightarrow>
               (issued,
                Resolved (failure (if errorMessage e \<noteq> [] then errorMessage e
                                   else ''Failed to update data/schema.'')))))"

section \<open>Notions of the specification\<close>

subsection \<open>The identifier grammar\<close>

text \<open>
  An identifier starts with a letter or an underscore, followed by letters, digits and
  underscores.
\<close>

definition is_letter :: "char \<Rightarrow> bool" where
  "is_letter c = (c \<in> set ''abcdefghijklmnopqrstuvwxyzABCDEFGHIJKLMNOPQRSTUVWXYZ'')"

definition is_digit :: "char \<Rightarrow> bool" where
  "is_digit c = (c \<in> set ''0123456789'')"

definition identifier_grammar :: "string \<Rightarrow> bool" where
  "identifier_grammar s =
     (case s of
        [] \<Rightarrow> False
      | c # cs \<Rightarrow> (is_letter c \<or> c = CHR ''_'') \<and>
                 list_all (\<lambda>d. is_letter d \<or> is_digit d \<or> d = CHR ''_'') cs)"

text \<open>The language of a regular expression, against which \<open>test\<close> is checked.\<close>

inductive_set star :: "string set \<Rightarrow> string set" for A :: "string set" where
  star_nil: "[] \<in> star A"
| star_app: "u \<in> A \<Longrightarrow> v \<in> star A \<Longrightarrow> u @ v \<in> star A"

fun lang :: "regex \<Rightarrow> string set" where
  "lang Never = {}"
| "lang Empty = {[]}"
| "lang (Class rs) = {[c] | c. in_class rs c}"
| "lang (Alt r s) = lang r \<union> lang s"
| "lang (Seq r s) = {u @ v | u v. u \<in> lang r \<and> v \<in> lang s}"
| "lang (Star r) = star (lang r)"

subsection \<open>Row-major numbering\<close>

text \<open>A list cut into \<open>r\<close> consecutive groups of \<open>c\<close> elements.\<close>

fun chunks :: "nat \<Rightarrow> nat \<Rightarrow> 'a list \<Rightarrow> 'a list list" where
  "chunks 0 c xs = []"
| "chunks (Suc r) c xs = take c xs # chunks r c (drop c xs)"

subsection \<open>Search criteria\<close>

text \<open>
  The comparison a criteria value asks for: equality with a scalar, or the first of
  \<^verbatim>\<open>$lt\<close>, \<^verbatim>\<open>$gt\<close>, \<^verbatim>\<open>$lte\<close>, \<^verbatim>\<open>$gte\<close>, \<^verbatim>\<open>$ne\<close> that a mapping names, with its bound.
\<close>

definition lookup :: "(string \<times> jsval) list \<Rightarrow> string \<Rightarrow> jsval" where
  "lookup kvs k = (case map_of kvs k of Some x \<Rightarrow> x | None \<Rightarrow> Undefined)"

definition comparison :: "jsval \<Rightarrow> (string \<times> jsval) option" where
  "comparison v =
     (case v of
        Obj kvs \<Rightarrow>
          if ''$lt'' \<in> fst ` set kvs then Some (''<'', lookup kvs ''$lt'')
          else if ''$gt'' \<in> fst ` set kvs then Some (''>'', lookup kvs ''$gt'')
          else if ''$lte'' \<in> fst ` set kvs then Some (''<='', lookup kvs ''$lte'')
          else if ''$gte'' \<in> fst ` set kvs then Some (''>='', lookup kvs ''$gte'')
          else if ''$ne'' \<in> fst ` set kvs then Some (''<>'', lookup kvs ''$ne'')
          else None
      | Arr xs \<Rightarrow> None
      | _ \<Rightarrow> Some (''='', v))"

subsection \<open>Constraints in the store\<close>









text \<open>Whether a string occurs inside another.\<close>

fun isPrefix :: "string \<Rightarrow> string \<Rightarrow> bool" where
  "isPrefix [] ys = True"
| "isPrefix (x # xs) [] = False"
| "isPrefix (x # xs) (y # ys) = (x = y \<and> isPrefix xs ys)"

fun contains :: "string \<Rightarrow> string \<Rightarrow> bool" where
  "contains [] sub = (sub = [])"
| "contains (y # ys) sub = (isPrefix sub (y # ys) \<or> contains ys sub)"

subsection \<open>Columns of a new table\<close>

definition baselineNames :: "jsval set" where
  "baselineNames = {Str ''id'', Str ''created_at'', Str ''updated_at''}"

definition supportedTypes :: "string list" where
  "supportedTypes = [''integer'', ''text'', ''timestamp'', ''boolean'', ''decimal'']"

text \<open>Whether the name of a caller's column differs from all baseline names.\<close>

definition ownName :: "jsval \<Rightarrow> bool" where
  "ownName col = (case getProp col ''name'' of Inr v \<Rightarrow> v \<notin> baselineNames | Inl e \<Rightarrow> True)"

subsection \<open>Answers of the store\<close>

text \<open>The answers to statements issued one after the other, after those in \<open>issued\<close>.\<close>

fun responses :: "world \<Rightarrow> query list \<Rightarrow> query list \<Rightarrow> response list" where
  "responses w issued [] = []"
| "responses w issued (q # qs) = answer w issued q # responses w (issued @ [q]) qs"

subsection \<open>The statement of one update\<close>


subsection \<open>Conditions of a search\<close>

text \<open>
  The condition and the bound value of a criteria entry, given the number of its
  placeholder: \<^verbatim>\<open>col op $n\<close>.
\<close>

definition conditionText :: "nat \<Rightarrow> string \<times> jsval \<Rightarrow> string" where
  "conditionText n kv =
     (case comparison (snd kv) of
        Some (sqlOp, bound) \<Rightarrow> fst kv @ '' '' @ sqlOp @ '' '' @ placeholder n
      | None \<Rightarrow> [])"

definition boundOf :: "string \<times> jsval \<Rightarrow> jsval" where
  "boundOf kv = (case comparison (snd kv) of Some (sqlOp, bound) \<Rightarrow> bound | None \<Rightarrow> Undefined)"

subsection \<open>The uniform envelope\<close>

text \<open>\<^verbatim>\<open>{success: true, ...}\<close> or \<^verbatim>\<open>{success: false, message: string}\<close>\<close>

definition uniform :: "envelope \<Rightarrow> bool" where
  "uniform env = (success env \<or> message env \<noteq> None)"

text \<open>Whether an asynchronous call came back with a uniform envelope.\<close>

definition returnsEnvelope :: "query list \<times> outcome \<Rightarrow> bool" where
  "returnsEnvelope r = (case snd r of Resolved env \<Rightarrow> uniform env | Rejected e \<Rightarrow> False)"

subsection \<open>Stores used in examples\<close>

text \<open>A store that answers every statement with no rows, and one that rejects every statement.\<close>

definition emptyStore :: world where
  "emptyStore = \<lparr>answer = (\<lambda>issued q. Rows []), winner = (\<lambda>n. 0), positive = (\<lambda>s. False)\<rparr>"

definition failingStore :: "string \<Rightarrow> world" where
  "failingStore m = \<lparr>answer = (\<lambda>issued q. Failed m), winner = (\<lambda>n. 0), positive = (\<lambda>s. False)\<rparr>"

section \<open>Matching by derivatives decides the language\<close>

lemma nullable_lang: "nullable r \<longleftrightarrow> [] \<in> lang r"
  by (induction r) (auto intro: star.star_nil)

lemma star_cons_split:
  assumes "w \<in> star A" "w = c # x"
  shows "\<exists>u v. x = u @ v \<and> c # u \<in> A \<and> v \<in> star A"
  using assms
proof (induction arbitrary: x rule: star.induct)
  case star_nil
  then show ?case by simp
next
  case (star_app u v)
  show ?case
  proof (cases u)
    case Nil
    with star_app show ?thesis by simp
  next
    case (Cons d u')
    with star_app.prems have "d = c" "x = u' @ v" by simp_all
    with Cons star_app.hyps show ?thesis by blast
  qed
qed

lemma lang_deriv: "lang (deriv c r) = {w. c # w \<in> lang r}"
proof (induction r)
  case (Seq r s)
  show ?case
  proof (cases "nullable r")
    case True
    then have "[] \<in> lang r" by (simp add: nullable_lang)
    with Seq True show ?thesis
      by (auto simp: Cons_eq_append_conv)
  next
    case False
    then have "[] \<notin> lang r" by (simp add: nullable_lang)
    with Seq False show ?thesis
      by (auto simp: Cons_eq_append_conv)
  qed
next
  case (Star r)
  show ?case
  proof (rule set_eqI, rule iffI)
    fix w assume "w \<in> lang (deriv c (Star r))"
    then obtain u v where "w = u @ v" "c # u \<in> lang r" "v \<in> star (lang r)"
      using Star by auto
    then have "(c # u) @ v \<in> star (lang r)" by (blast intro: star.star_app)
    with \<open>w = u @ v\<close> show "w \<in> {w. c # w \<in> lang (Star r)}" by simp
  next
    fix w assume "w \<in> {w. c # w \<in> lang (Star r)}"
    then have "c # w \<in> star (lang r)" by simp
    from star_cons_split [OF this refl]
    show "w \<in> lang (deriv c (Star r))" using Star by auto
  qed
qed auto

lemma test_lang: "test r w \<longleftrightarrow> w \<in> lang r"
  by (induction w arbitrary: r) (simp_all add: nullable_lang lang_deriv)

lemma star_class: "w \<in> star {[c] | c. P c} \<longleftrightarrow> list_all P w"
proof
  assume "w \<in> star {[c] | c. P c}"
  then show "list_all P w" by (induction rule: star.induct) auto
next
  assume "list_all P w"
  then show "w \<in> star {[c] | c. P c}"
  proof (induction w)
    case Nil
    show ?case by (rule star.star_nil)
  next
    case (Cons a w)
    then have "[a] \<in> {[c] | c. P c}" "w \<in> star {[c] | c. P c}" by simp_all
    then have "[a] @ w \<in> star {[c] | c. P c}" by (rule star.star_app)
    then show ?case by simp
  qed
qed

lemma lang_class_seq:
  "c # cs \<in> lang (Seq (Class A) r) \<longleftrightarrow> in_class A c \<and> cs \<in> lang r"
proof
  assume "c # cs \<in> lang (Seq (Class A) r)"
  then show "in_class A c \<and> cs \<in> lang r" by auto
next
  assume "in_class A c \<and> cs \<in> lang r"
  then have "[c] \<in> lang (Class A)" "cs \<in> lang r" by simp_all
  then have "[c] @ cs \<in> lang (Seq (Class A) r)" unfolding lang.simps by blast
  then show "c # cs \<in> lang (Seq (Class A) r)" by simp
qed

section \<open>The ranges of the name pattern\<close>

lemma of_char_cases:
  assumes "(lo::nat) \<le> of_char c" "(of_char c :: nat) \<le> hi"
  shows "c \<in> set (map char_of [lo..<Suc hi])"
proof -
  have "char_of (of_char c :: nat) = c" by simp
  moreover have "(of_char c :: nat) \<in> set [lo..<Suc hi]" using assms by auto
  ultimately show ?thesis by (metis imageI set_map)
qed

lemma lower_range:
  "in_range c (CHR ''a'', CHR ''z'') \<longleftrightarrow> c \<in> set ''abcdefghijklmnopqrstuvwxyz''"
proof
  assume "in_range c (CHR ''a'', CHR ''z'')"
  then have "c \<in> set (map char_of [97..<Suc 122])"
    by (intro of_char_cases) (simp_all add: in_range_def)
  also have "map char_of [97..<Suc 122] = ''abcdefghijklmnopqrstuvwxyz''"
    by code_simp
  finally show "c \<in> set ''abcdefghijklmnopqrstuvwxyz''" .
next
  assume "c \<in> set ''abcdefghijklmnopqrstuvwxyz''"
  then show "in_range c (CHR ''a'', CHR ''z'')"
    by (auto simp: in_range_def)
qed

lemma upper_range:
  "in_range c (CHR ''A'', CHR ''Z'') \<longleftrightarrow> c \<in> set ''ABCDEFGHIJKLMNOPQRSTUVWXYZ''"
proof
  assume "in_range c (CHR ''A'', CHR ''Z'')"
  then have "c \<in> set (map char_of [65..<Suc 90])"
    by (intro of_char_cases) (simp_all add: in_range_def)
  also have "map char_of [65..<Suc 90] = ''ABCDEFGHIJKLMNOPQRSTUVWXYZ''"
    by code_simp
  finally show "c \<in> set ''ABCDEFGHIJKLMNOPQRSTUVWXYZ''" .
next
  assume "c \<in> set ''ABCDEFGHIJKLMNOPQRSTUVWXYZ''"
  then show "in_range c (CHR ''A'', CHR ''Z'')"
    by (auto simp: in_range_def)
qed

lemma digit_range: "in_range c (CHR ''0'', CHR ''9'') \<longleftrightarrow> is_digit c"
proof
  assume "in_range c (CHR ''0'', CHR ''9'')"
  then have "c \<in> set (map char_of [48..<Suc 57])"
    by (intro of_char_cases) (simp_all add: in_range_def)
  also have "map char_of [48..<Suc 57] = ''0123456789''"
    by code_simp
  finally show "is_digit c" by (simp add: is_digit_def)
next
  assume "is_digit c"
  then show "in_range c (CHR ''0'', CHR ''9'')"
    by (auto simp: in_range_def is_digit_def)
qed

lemma underscore_range: "in_range c (CHR ''_'', CHR ''_'') \<longleftrightarrow> c = CHR ''_''"
proof
  assume "in_range c (CHR ''_'', CHR ''_'')"
  then have "(of_char c :: nat) = of_char CHR ''_''"
    by (simp add: in_range_def)
  then show "c = CHR ''_''" by (metis char_of_char)
next
  assume "c = CHR ''_''"
  then show "in_range c (CHR ''_'', CHR ''_'')" by (simp add: in_range_def)
qed

lemma letter_ranges:
  "in_range c (CHR ''a'', CHR ''z'') \<or> in_range c (CHR ''A'', CHR ''Z'') \<longleftrightarrow> is_letter c"
  unfolding lower_range upper_range is_letter_def by auto

lemma test_name_pattern: "test name_pattern s = identifier_grammar s"
proof (cases s)
  case Nil
  then show ?thesis by (simp add: name_pattern_def identifier_grammar_def)
next
  case (Cons c cs)
  let ?A = "[(CHR ''a'', CHR ''z''), (CHR ''A'', CHR ''Z''), (CHR ''_'', CHR ''_'')]"
  let ?B = "[(CHR ''a'', CHR ''z''), (CHR ''A'', CHR ''Z''), (CHR ''0'', CHR ''9''),
                       (CHR ''_'', CHR ''_'')]"
  have A: "in_class ?A d \<longleftrightarrow> is_letter d \<or> d = CHR ''_''" for d
    using letter_ranges [of d] underscore_range [of d] by (auto simp: in_class_def)
  have B: "in_class ?B d \<longleftrightarrow> is_letter d \<or> is_digit d \<or> d = CHR ''_''" for d
    using letter_ranges [of d] underscore_range [of d] digit_range [of d]
    by (auto simp: in_class_def)
  have "test name_pattern s \<longleftrightarrow> s \<in> lang name_pattern" by (rule test_lang)
  also have "\<dots> \<longleftrightarrow> in_class ?A c \<and> cs \<in> star {[d] | d. in_class ?B d}"
    unfolding name_pattern_def Cons lang_class_seq by simp
  also have "\<dots> \<longleftrightarrow> in_class ?A c \<and> list_all (in_class ?B) cs"
    by (simp only: star_class)
  also have "\<dots> \<longleftrightarrow> identifier_grammar s"
    by (simp add: identifier_grammar_def Cons A B cong: list.pred_cong)
  finally show ?thesis .
qed

lemma validateName_Str:
  "validateName (Str n) = (if identifier_grammar n then Inr () else Inl (InvalidIdentifier n))"
  by (simp add: validateName_def test_name_pattern)

section \<open>The name validator guards every statement\<close>

text \<open>
  C1.  For a string \<open>n\<close>, \<^verbatim>\<open>validateName\<close> returns without error exactly when \<open>n\<close> follows the
  identifier grammar (a letter or underscore, then letters, digits and underscores), and
  throws the error of an invalid identifier otherwise.  An operation that validates a name
  throws that error before it issues any statement to the store: this holds for table
  creation, insert, update, search, remove, and for either table of a join.
\<close>

theorem validateName_accepts_iff:
  "(validateName (Str n) = Inr ()) = identifier_grammar n
   \<and> (\<not> identifier_grammar n \<longrightarrow>
        validateName (Str n) = Inl (InvalidIdentifier n)
      \<and> createDynamicTable_try w (Str n) cols = ([], Inl (InvalidIdentifier n))
      \<and> addDataToTable_try w (Str n) d = ([], Inl (InvalidIdentifier n))
      \<and> updateDataInTable_try w (Str n) us cs = ([], Inl (InvalidIdentifier n))
      \<and> searchDataInTable_try w (Str n) cr = ([], Inl (InvalidIdentifier n))
      \<and> removeDataFromTable_try w (Str n) ids = ([], Inl (InvalidIdentifier n))
      \<and> joinTables_try w (Str n) t2 jt oc = ([], Inl (InvalidIdentifier n))
      \<and> (identifier_grammar m \<longrightarrow>
            joinTables_try w (Str m) (Str n) jt oc = ([], Inl (InvalidIdentifier n))))"
  by (simp add: validateName_Str createDynamicTable_try_def addDataToTable_try_def
      updateDataInTable_try_def searchDataInTable_try_def removeDataFromTable_try_def
      joinTables_try_def andThen_def)

theorem validateName_accepts_iff_witness:
  "validateName (Str ''user_data'') = Inr ()
   \<and> validateName (Str ''2cool'') = Inl (InvalidIdentifier ''2cool'')
   \<and> validateName (Str ''drop;table'') = Inl (InvalidIdentifier ''drop;table'')
   \<and> validateName (Str []) = Inl (InvalidIdentifier [])
   \<and> identifier_grammar ''users'' \<and> \<not> identifier_grammar ''drop;table''
   \<and> removeDataFromTable_try emptyStore (Str ''drop;table'') (Arr [Num 1])
       = ([], Inl (InvalidIdentifier ''drop;table''))
   \<and> joinTables_try emptyStore (Str ''users'') (Str ''drop;table'') (Str ''INNER'') (Str ''a = b'')
       = ([], Inl (InvalidIdentifier ''drop;table''))"
  using validateName_accepts_iff [of "''user_data''"]
    validateName_accepts_iff [of "''2cool''"]
    validateName_accepts_iff [of "''drop;table''" emptyStore _ _ _ _ _ "Arr [Num 1]" _
                                  "Str ''INNER''" "Str ''a = b''" "''users''"]
    validateName_accepts_iff [of "[]"]
  by (simp add: identifier_grammar_def is_letter_def is_digit_def)

section \<open>Creating a table: the merged column list\<close>

lemma getProp_defined:
  assumes "v \<noteq> Undefined" "v \<noteq> Null"
  shows "\<exists>x. getProp v k = Inr x"
  using assms by (cases v) (simp_all add: getProp_def)

lemma someE_sameName:
  assumes "getProp c ''name'' = Inr cn"
  shows "someE (sameName c) defaultColumns = Inr (cn \<in> baselineNames)"
  using assms
  by (auto simp: defaultColumns_def sameName_def getProp_def andThen_def strictEq_def
      baselineNames_def)

lemma filterE_filter:
  assumes "\<forall>x\<in>set xs. p x = Inr (q x)"
  shows "filterE p xs = Inr (filter q xs)"
  using assms by (induction xs) simp_all

lemma mapE_append:
  "mapE f (xs @ ys) =
     (case mapE f xs of
        Inl e \<Rightarrow> Inl e
      | Inr a \<Rightarrow> (case mapE f ys of Inl e \<Rightarrow> Inl e | Inr b \<Rightarrow> Inr (a @ b)))"
  by (induction xs) (simp_all split: sum.splits)

lemma allColumns_filter:
  assumes "\<forall>c\<in>set cols. c \<noteq> Undefined \<and> c \<noteq> Null"
  shows "allColumns cols = Inr (defaultColumns @ filter ownName cols)"
proof -
  have "andThen (someE (sameName c) defaultColumns) (\<lambda>b. Inr (\<not> b)) = Inr (ownName c)"
    if "c \<in> set cols" for c
  proof -
    from that assms obtain cn where cn: "getProp c ''name'' = Inr cn"
      using getProp_defined by blast
    show ?thesis
      by (simp add: someE_sameName [OF cn] andThen_def ownName_def cn)
  qed
  then have "filterE (\<lambda>col. andThen (someE (sameName col) defaultColumns) (\<lambda>b. Inr (\<not> b))) cols
               = Inr (filter ownName cols)"
    by (intro filterE_filter) simp
  then show ?thesis by (simp add: allColumns_def andThen_def)
qed

lemma baseline_definitions:
  "mapE columnDefinition defaultColumns =
     Inr [''id SERIAL PRIMARY KEY'', ''created_at TIMESTAMPTZ DEFAULT NOW()'',
          ''updated_at TIMESTAMPTZ DEFAULT NOW()'']"
  by (simp add: defaultColumns_def columnDefinition_def getProp_def andThen_def strictEq_def)

lemma createDynamicTable_issues:
  assumes "getProp arg ''schemaName'' = Inr (Str n)" "getProp arg ''columns'' = Inr (Arr cols)"
    and "identifier_grammar n" "cols \<noteq> []"
    and "andThen (allColumns cols) (mapE columnDefinition) = Inr defs"
  shows "createDynamicTable w arg =
           ([\<lparr>sql = ''CREATE TABLE IF NOT EXISTS '' @ n @ '' ('' @ intercalate '', '' defs @ '')'',
              params = []\<rparr>],
            case answer w [] \<lparr>sql = ''CREATE TABLE IF NOT EXISTS '' @ n @ '' (''
                                       @ intercalate '', '' defs @ '')'',
                                params = []\<rparr> of
              Rows rows \<Rightarrow> Resolved (succeeded (n @ '' table created successfully.''))
            | Failed m \<Rightarrow> Resolved (failure (''Failed to create '' @ n @ '' table.'')))"
proof -
  let ?q = "\<lparr>sql = ''CREATE TABLE IF NOT EXISTS '' @ n @ '' ('' @ intercalate '', '' defs @ '')'',
              params = []\<rparr>"
  have t: "createDynamicTable_try w (Str n) (Arr cols) =
      ([?q], case answer w [] ?q of
               Rows rows \<Rightarrow> Inr (succeeded (n @ '' table created successfully.''))
             | Failed m \<Rightarrow> Inl (StoreError m))"
    using assms(3,4)
    by (simp add: createDynamicTable_try_def validateName_Str assms(5) poolQuery_def
        split: response.splits)
  show ?thesis
    by (simp add: createDynamicTable_def assms(1,2) andThen_def t split: response.splits)
qed

text \<open>
  C5.  When every entry of the caller's column list is an object, the merged column list is
  the three baseline columns \<^verbatim>\<open>id\<close> (\<^verbatim>\<open>SERIAL PRIMARY KEY\<close>), \<^verbatim>\<open>created_at\<close> and
  \<^verbatim>\<open>updated_at\<close>, followed by exactly the caller's columns whose name is none of the
  baseline names, in their order.  Called with a valid name and such a non-empty list,
  \<^verbatim>\<open>createDynamicTable\<close> issues exactly one statement, the \<^verbatim>\<open>CREATE TABLE IF NOT EXISTS\<close>
  that defines the baseline columns first and then those columns, and answers with the
  success envelope when the store accepts it and with the failure envelope otherwise.  A
  caller's column named \<^verbatim>\<open>id\<close> is dropped, whatever its type.
\<close>

theorem allColumns_baseline_wins:
  assumes "\<forall>c\<in>set cols. c \<noteq> Undefined \<and> c \<noteq> Null"
  shows "allColumns cols = Inr (defaultColumns @ filter ownName cols)
       \<and> mapE columnDefinition defaultColumns =
           Inr [''id SERIAL PRIMARY KEY'', ''created_at TIMESTAMPTZ DEFAULT NOW()'',
                ''updated_at TIMESTAMPTZ DEFAULT NOW()'']
       \<and> (identifier_grammar n \<and> cols \<noteq> [] \<and> mapE columnDefinition (filter ownName cols) = Inr ds
            \<longrightarrow> fst (createDynamicTable_try w (Str n) (Arr cols)) =
                  [\<lparr>sql = ''CREATE TABLE IF NOT EXISTS '' @ n @ '' (''
                          @ intercalate '', ''
                              ([''id SERIAL PRIMARY KEY'', ''created_at TIMESTAMPTZ DEFAULT NOW()'',
                                ''updated_at TIMESTAMPTZ DEFAULT NOW()''] @ ds)
                          @ '')'',
                     params = []\<rparr>])
       \<and> (identifier_grammar n \<and> cols \<noteq> [] \<and> mapE columnDefinition (filter ownName cols) = Inr ds
            \<and> getProp arg ''schemaName'' = Inr (Str n) \<and> getProp arg ''columns'' = Inr (Arr cols)
            \<longrightarrow> createDynamicTable w arg =
                  ([\<lparr>sql = ''CREATE TABLE IF NOT EXISTS '' @ n @ '' (''
                          @ intercalate '', ''
                              ([''id SERIAL PRIMARY KEY'', ''created_at TIMESTAMPTZ DEFAULT NOW()'',
                                ''updated_at TIMESTAMPTZ DEFAULT NOW()''] @ ds)
                          @ '')'',
                     params = []\<rparr>],
                   case answer w []
                          \<lparr>sql = ''CREATE TABLE IF NOT EXISTS '' @ n @ '' (''
                              @ intercalate '', ''
                                  ([''id SERIAL PRIMARY KEY'', ''created_at TIMESTAMPTZ DEFAULT NOW()'',
                                    ''updated_at TIMESTAMPTZ DEFAULT NOW()''] @ ds)
                              @ '')'',
                           params = []\<rparr> of
                     Rows rows \<Rightarrow> Resolved (succeeded (n @ '' table created successfully.''))
                   | Failed m \<Rightarrow> Resolved (failure (''Failed to create '' @ n @ '' table.''))))"
proof (intro conjI impI)
  show m: "allColumns cols = Inr (defaultColumns @ filter ownName cols)"
    by (rule allColumns_filter [OF assms])
  show "mapE columnDefinition defaultColumns =
           Inr [''id SERIAL PRIMARY KEY'', ''created_at TIMESTAMPTZ DEFAULT NOW()'',
                ''updated_at TIMESTAMPTZ DEFAULT NOW()'']"
    by (rule baseline_definitions)
  {
    assume a: "identifier_grammar n \<and> cols \<noteq> [] \<and> mapE columnDefinition (filter ownName cols) = Inr ds"
    then have "andThen (allColumns cols) (mapE columnDefinition) =
        Inr ([''id SERIAL PRIMARY KEY'', ''created_at TIMESTAMPTZ DEFAULT NOW()'',
                  ''updated_at TIMESTAMPTZ DEFAULT NOW()''] @ ds)"
      by (simp add: m andThen_def mapE_append baseline_definitions)
    with a show "fst (createDynamicTable_try w (Str n) (Arr cols)) =
                    [\<lparr>sql = ''CREATE TABLE IF NOT EXISTS '' @ n @ '' (''
                            @ intercalate '', ''
                                ([''id SERIAL PRIMARY KEY'', ''created_at TIMESTAMPTZ DEFAULT NOW()'',
                                  ''updated_at TIMESTAMPTZ DEFAULT NOW()''] @ ds)
                            @ '')'',
                       params = []\<rparr>]"
      by (simp add: createDynamicTable_try_def validateName_Str poolQuery_def
          split: response.splits)
  }
  assume a: "identifier_grammar n \<and> cols \<noteq> [] \<and> mapE columnDefinition (filter ownName cols) = Inr ds
            \<and> getProp arg ''schemaName'' = Inr (Str n) \<and> getProp arg ''columns'' = Inr (Arr cols)"
  then have d: "andThen (allColumns cols) (mapE columnDefinition) =
      Inr ([''id SERIAL PRIMARY KEY'', ''created_at TIMESTAMPTZ DEFAULT NOW()'',
                ''updated_at TIMESTAMPTZ DEFAULT NOW()''] @ ds)"
    by (simp add: m andThen_def mapE_append baseline_definitions)
  from a have g: "getProp arg ''schemaName'' = Inr (Str n)" "getProp arg ''columns'' = Inr (Arr cols)"
    "identifier_grammar n" "cols \<noteq> []" by simp_all
  show "createDynamicTable w arg =
                  ([\<lparr>sql = ''CREATE TABLE IF NOT EXISTS '' @ n @ '' (''
                          @ intercalate '', ''
                              ([''id SERIAL PRIMARY KEY'', ''created_at TIMESTAMPTZ DEFAULT NOW()'',
                                ''updated_at TIMESTAMPTZ DEFAULT NOW()''] @ ds)
                          @ '')'',
                     params = []\<rparr>],
                   case answer w []
                          \<lparr>sql = ''CREATE TABLE IF NOT EXISTS '' @ n @ '' (''
                              @ intercalate '', ''
                                  ([''id SERIAL PRIMARY KEY'', ''created_at TIMESTAMPTZ DEFAULT NOW()'',
                                    ''updated_at TIMESTAMPTZ DEFAULT NOW()''] @ ds)
                              @ '')'',
                           params = []\<rparr> of
                     Rows rows \<Rightarrow> Resolved (succeeded (n @ '' table created successfully.''))
                   | Failed m \<Rightarrow> Resolved (failure (''Failed to create '' @ n @ '' table.'')))"
    by (rule createDynamicTable_issues [OF g d])
qed

theorem allColumns_baseline_wins_witness:
  "Obj [(''name'', Str ''id''), (''type'', Str ''text'')] \<noteq> Undefined
   \<and> Obj [(''name'', Str ''id''), (''type'', Str ''text'')] \<noteq> Null
   \<and> allColumns [Obj [(''name'', Str ''id''), (''type'', Str ''text'')],
                  Obj [(''name'', Str ''title''), (''type'', Str ''text'')]]
       = Inr (defaultColumns @ [Obj [(''name'', Str ''title''), (''type'', Str ''text'')]])
   \<and> identifier_grammar ''widgets''
   \<and> createDynamicTable emptyStore
        (Obj [(''schemaName'', Str ''widgets''),
              (''columns'', Arr [Obj [(''name'', Str ''id''), (''type'', Str ''text'')],
                                 Obj [(''name'', Str ''title''), (''type'', Str ''text'')]])])
       = ([\<lparr>sql = ''CREATE TABLE IF NOT EXISTS widgets (id SERIAL PRIMARY KEY, created_at TIMESTAMPTZ DEFAULT NOW(), updated_at TIMESTAMPTZ DEFAULT NOW(), title TEXT NOT NULL)'',
            params = []\<rparr>],
          Resolved (succeeded ''widgets table created successfully.''))
   \<and> createDynamicTable emptyStore
        (Obj [(''schemaName'', Str ''widgets''),
              (''columns'', Arr [Obj [(''name'', Str ''id''), (''type'', Str ''text'')]])])
       = ([\<lparr>sql = ''CREATE TABLE IF NOT EXISTS widgets (id SERIAL PRIMARY KEY, created_at TIMESTAMPTZ DEFAULT NOW(), updated_at TIMESTAMPTZ DEFAULT NOW())'',
            params = []\<rparr>],
          Resolved (succeeded ''widgets table created successfully.''))"
proof -
  let ?id = "Obj [(''name'', Str ''id''), (''type'', Str ''text'')]"
  let ?title = "Obj [(''name'', Str ''title''), (''type'', Str ''text'')]"
  let ?arg2 = "Obj [(''schemaName'', Str ''widgets''), (''columns'', Arr [?id, ?title])]"
  let ?arg1 = "Obj [(''schemaName'', Str ''widgets''), (''columns'', Arr [?id])]"
  have o2: "\<forall>c\<in>set [?id, ?title]. c \<noteq> Undefined \<and> c \<noteq> Null" by simp
  have o1: "\<forall>c\<in>set [?id]. c \<noteq> Undefined \<and> c \<noteq> Null" by simp
  have n1: "?id \<noteq> Undefined" and n2: "?id \<noteq> Null" by simp_all
  have i: "identifier_grammar ''widgets''"
    by (simp add: identifier_grammar_def is_letter_def)
  have k2: "filter ownName [?id, ?title] = [?title]"
    by (simp add: ownName_def getProp_def baselineNames_def)
  have k1: "filter ownName [?id] = []"
    by (simp add: ownName_def getProp_def baselineNames_def)
  have d2: "mapE columnDefinition (filter ownName [?id, ?title]) = Inr [''title TEXT NOT NULL'']"
    unfolding k2 by code_simp
  have d1: "mapE columnDefinition (filter ownName [?id]) = Inr []"
    unfolding k1 by simp
  have g2: "getProp ?arg2 ''schemaName'' = Inr (Str ''widgets'')"
    "getProp ?arg2 ''columns'' = Inr (Arr [?id, ?title])"
    by (simp_all add: getProp_def)
  have g1: "getProp ?arg1 ''schemaName'' = Inr (Str ''widgets'')"
    "getProp ?arg1 ''columns'' = Inr (Arr [?id])"
    by (simp_all add: getProp_def)
  note t2 = allColumns_baseline_wins [OF o2, where n = "''widgets''" and ds = "[''title TEXT NOT NULL'']"
      and arg = ?arg2 and w = emptyStore]
  note t1 = allColumns_baseline_wins [OF o1, where n = "''widgets''" and ds = "[]"
      and arg = ?arg1 and w = emptyStore]
  from t2 have "allColumns [?id, ?title] = Inr (defaultColumns @ filter ownName [?id, ?title])"
    by (rule conjunct1)
  then have r1: "allColumns [?id, ?title] = Inr (defaultColumns @ [?title])"
    by (simp only: k2)
  have e2: "[?id, ?title] \<noteq> []" and e1: "[?id] \<noteq> []" by simp_all
  from t2 i e2 d2 g2 have "createDynamicTable emptyStore ?arg2 =
      ([\<lparr>sql = ''CREATE TABLE IF NOT EXISTS '' @ ''widgets'' @ '' (''
                          @ intercalate '', ''
                              ([''id SERIAL PRIMARY KEY'', ''created_at TIMESTAMPTZ DEFAULT NOW()'',
                                ''updated_at TIMESTAMPTZ DEFAULT NOW()''] @ [''title TEXT NOT NULL''])
                          @ '')'',
                     params = []\<rparr>],
                   case answer emptyStore []
                          \<lparr>sql = ''CREATE TABLE IF NOT EXISTS '' @ ''widgets'' @ '' (''
                              @ intercalate '', ''
                                  ([''id SERIAL PRIMARY KEY'', ''created_at TIMESTAMPTZ DEFAULT NOW()'',
                                    ''updated_at TIMESTAMPTZ DEFAULT NOW()''] @ [''title TEXT NOT NULL''])
                              @ '')'',
                           params = []\<rparr> of
                     Rows rows \<Rightarrow> Resolved (succeeded (''widgets'' @ '' table created successfully.''))
                   | Failed m \<Rightarrow> Resolved (failure (''Failed to create '' @ ''widgets'' @ '' table.'')))"
    by blast
  then have r2: "createDynamicTable emptyStore ?arg2
       = ([\<lparr>sql = ''CREATE TABLE IF NOT EXISTS widgets (id SERIAL PRIMARY KEY, created_at TIMESTAMPTZ DEFAULT NOW(), updated_at TIMESTAMPTZ DEFAULT NOW(), title TEXT NOT NULL)'',
            params = []\<rparr>],
          Resolved (succeeded ''widgets table created successfully.''))"
    by (simp add: emptyStore_def)
  from t1 i e1 d1 g1 have "createDynamicTable emptyStore ?arg1 =
      ([\<lparr>sql = ''CREATE TABLE IF NOT EXISTS '' @ ''widgets'' @ '' (''
                          @ intercalate '', ''
                              ([''id SERIAL PRIMARY KEY'', ''created_at TIMESTAMPTZ DEFAULT NOW()'',
                                ''updated_at TIMESTAMPTZ DEFAULT NOW()''] @ [])
                          @ '')'',
                     params = []\<rparr>],
                   case answer emptyStore []
                          \<lparr>sql = ''CREATE TABLE IF NOT EXISTS '' @ ''widgets'' @ '' (''
                              @ intercalate '', ''
                                  ([''id SERIAL PRIMARY KEY'', ''created_at TIMESTAMPTZ DEFAULT NOW()'',
                                    ''updated_at TIMESTAMPTZ DEFAULT NOW()''] @ [])
                              @ '')'',
                           params = []\<rparr> of
                     Rows rows \<Rightarrow> Resolved (succeeded (''widgets'' @ '' table created successfully.''))
                   | Failed m \<Rightarrow> Resolved (failure (''Failed to create '' @ ''widgets'' @ '' table.'')))"
    by blast
  then have r3: "createDynamicTable emptyStore ?arg1
       = ([\<lparr>sql = ''CREATE TABLE IF NOT EXISTS widgets (id SERIAL PRIMARY KEY, created_at TIMESTAMPTZ DEFAULT NOW(), updated_at TIMESTAMPTZ DEFAULT NOW())'',
            params = []\<rparr>],
          Resolved (succeeded ''widgets table created successfully.''))"
    by (simp add: emptyStore_def)
  from n1 n2 r1 i r2 r3 show ?thesis by (intro conjI)
qed


section \<open>Removing rows: falsy ids\<close>

lemma getProp_total:
  assumes "getProp arg k = Inr v"
  shows "\<exists>v'. getProp arg k' = Inr v'"
  using assms by (cases arg) (simp_all add: getProp_def)

lemma removeDataFromTable_try_nothing:
  assumes "nothingProvided ids"
  shows "\<exists>e. removeDataFromTable_try w tn ids = ([], Inl e)"
  using assms by (cases "validateName tn") (simp_all add: removeDataFromTable_try_def)

text \<open>
  C10.  When the \<^verbatim>\<open>ids\<close> of a remove call are falsy (\<^verbatim>\<open>0\<close>, the empty string,
  \<^verbatim>\<open>null\<close>, \<^verbatim>\<open>undefined\<close>, \<^verbatim>\<open>false\<close>), the call issues no statement and returns the
  failure envelope; for a valid table name the error thrown is the one for missing ids.
\<close>

theorem removeDataFromTable_falsy_ids:
  assumes "getProp arg ''ids'' = Inr ids" and "\<not> truthy ids"
  shows "removeDataFromTable w arg = ([], Resolved (failure ''Failed to remove data.''))
         \<and> (identifier_grammar n \<longrightarrow>
              removeDataFromTable_try w (Str n) ids = ([], Inl (EmptyInput ''No IDs provided.'')))"
proof
  obtain tn where tn: "getProp arg ''tableName'' = Inr tn"
    using getProp_total [OF assms(1)] by blast
  have np: "nothingProvided ids" using assms(2) by (simp add: nothingProvided_def)
  obtain e where "removeDataFromTable_try w tn ids = ([], Inl e)"
    using removeDataFromTable_try_nothing [OF np] by blast
  then show "removeDataFromTable w arg = ([], Resolved (failure ''Failed to remove data.''))"
    by (simp add: removeDataFromTable_def tn assms(1) andThen_def)
  show "identifier_grammar n \<longrightarrow>
          removeDataFromTable_try w (Str n) ids = ([], Inl (EmptyInput ''No IDs provided.''))"
    using np by (simp add: removeDataFromTable_try_def validateName_Str)
qed

theorem removeDataFromTable_falsy_ids_witness:
  "getProp (Obj [(''tableName'', Str ''widgets''), (''ids'', Num 0)]) ''ids'' = Inr (Num 0)
   \<and> \<not> truthy (Num 0)
   \<and> removeDataFromTable emptyStore (Obj [(''tableName'', Str ''widgets''), (''ids'', Num 0)])
       = ([], Resolved (failure ''Failed to remove data.''))
   \<and> identifier_grammar ''widgets''
   \<and> removeDataFromTable_try emptyStore (Str ''widgets'') (Num 0)
       = ([], Inl (EmptyInput ''No IDs provided.''))"
proof -
  have g: "getProp (Obj [(''tableName'', Str ''widgets''), (''ids'', Num 0)]) ''ids'' = Inr (Num 0)"
    by (simp add: getProp_def)
  have t: "\<not> truthy (Num 0)" by simp
  have i: "identifier_grammar ''widgets''"
    by (simp add: identifier_grammar_def is_letter_def is_digit_def)
  show ?thesis
    using removeDataFromTable_falsy_ids [OF g t, of emptyStore "''widgets''"] g t i by simp
qed

section \<open>Creating a table: unsupported column types\<close>

lemma isPrefix_refl: "isPrefix s s"
  by (induction s) simp_all

lemma contains_refl: "contains s s"
  by (cases s) (simp_all add: isPrefix_refl)

lemma contains_append: "contains (a @ b) b"
  by (induction a) (simp_all add: contains_refl)

lemma strictEq_Str: "strictEq (Str a) v = (v = Str a)"
  by (auto simp: strictEq_def)

lemma columnDefinition_unsupported:
  assumes "getProp c ''type'' = Inr (Str ty)" "ty \<notin> set supportedTypes"
  shows "columnDefinition c = Inl (UnsupportedType ty)"
  using assms(2)
  by (simp add: columnDefinition_def assms(1) andThen_def strictEq_Str supportedTypes_def)

lemma columnDefinition_supported:
  assumes "getProp c ''name'' = Inr (Str nm)" "getProp c ''type'' = Inr (Str ty)"
    "ty \<in> set supportedTypes"
  shows "\<exists>d. columnDefinition c = Inr d"
proof -
  obtain pk where pk: "getProp c ''primaryKey'' = Inr pk"
    using getProp_total [OF assms(1), where k' = "''primaryKey''"] by (rule exE)
  from assms(3) have "ty = ''integer'' \<or> ty = ''text'' \<or> ty = ''timestamp''
    \<or> ty = ''boolean'' \<or> ty = ''decimal''"
    by (simp add: supportedTypes_def)
  then show ?thesis
    by (elim disjE) (simp_all add: columnDefinition_def assms(1,2) pk andThen_def strictEq_Str)
qed

lemma mapE_first_unsupported:
  assumes "\<forall>c\<in>set xs. \<exists>nm ty. getProp c ''name'' = Inr (Str nm) \<and> getProp c ''type'' = Inr (Str ty)"
    and "\<exists>c\<in>set xs. getProp c ''type'' \<notin> (\<lambda>ty. Inr (Str ty)) ` set supportedTypes"
  shows "\<exists>ty. ty \<notin> set supportedTypes \<and> (\<exists>c\<in>set xs. getProp c ''type'' = Inr (Str ty))
              \<and> mapE columnDefinition xs = Inl (UnsupportedType ty)"
  using assms
proof (induction xs)
  case Nil
  then show ?case by simp
next
  case (Cons c xs)
  from Cons.prems(1) obtain nm ty where
    c: "getProp c ''name'' = Inr (Str nm)" "getProp c ''type'' = Inr (Str ty)"
    by auto
  show ?case
  proof (cases "ty \<in> set supportedTypes")
    case False
    have "mapE columnDefinition (c # xs) = Inl (UnsupportedType ty)"
      by (simp add: columnDefinition_unsupported [OF c(2) False])
    moreover have "\<exists>c'\<in>set (c # xs). getProp c' ''type'' = Inr (Str ty)"
      using c(2) by simp
    ultimately show ?thesis using False by blast
  next
    case True
    then obtain d where d: "columnDefinition c = Inr d"
      using columnDefinition_supported [OF c] by blast
    have "getProp c ''type'' \<in> (\<lambda>ty. Inr (Str ty)) ` set supportedTypes"
      using True c(2) by simp
    with Cons.prems(2)
    have bad: "\<exists>c\<in>set xs. getProp c ''type'' \<notin> (\<lambda>ty. Inr (Str ty)) ` set supportedTypes"
      by (metis set_ConsD)
    have typed: "\<forall>c\<in>set xs. \<exists>nm ty. getProp c ''name'' = Inr (Str nm) \<and> getProp c ''type'' = Inr (Str ty)"
      using Cons.prems(1) by simp
    from Cons.IH [OF typed bad] obtain ty' where ty':
      "ty' \<notin> set supportedTypes" "\<exists>c\<in>set xs. getProp c ''type'' = Inr (Str ty')"
      "mapE columnDefinition xs = Inl (UnsupportedType ty')"
      by blast
    have "mapE columnDefinition (c # xs) = Inl (UnsupportedType ty')"
      by (simp add: d ty'(3))
    moreover have "\<exists>c'\<in>set (c # xs). getProp c' ''type'' = Inr (Str ty')"
      using ty'(2) by auto
    ultimately show ?thesis using ty'(1) by blast
  qed
qed


text \<open>
  C8 (as amended).  For a valid name and column specifications with string names and
  types: when some column that does not bear a baseline name has a type outside
  \<^verbatim>\<open>integer\<close>, \<^verbatim>\<open>text\<close>, \<^verbatim>\<open>timestamp\<close>, \<^verbatim>\<open>boolean\<close>, \<^verbatim>\<open>decimal\<close>, the operation throws the
  unsupported-type error for such a type before any statement is issued.  The type name
  appears verbatim in the message of the thrown error, which is logged; the failure
  envelope carries the generic message \<^verbatim>\<open>Failed to create <name> table.\<close> instead.
\<close>

theorem createDynamicTable_unsupported_type:
  assumes "identifier_grammar n"
    and "\<forall>c\<in>set cols. \<exists>nm ty. getProp c ''name'' = Inr (Str nm) \<and> getProp c ''type'' = Inr (Str ty)"
    and "\<exists>c\<in>set cols. ownName c \<and> getProp c ''type'' \<notin> (\<lambda>ty. Inr (Str ty)) ` set supportedTypes"
  shows "\<exists>ty. ty \<notin> set supportedTypes \<and> (\<exists>c\<in>set cols. getProp c ''type'' = Inr (Str ty))
           \<and> createDynamicTable_try w (Str n) (Arr cols) = ([], Inl (UnsupportedType ty))
           \<and> contains (errorMessage (UnsupportedType ty)) ty
           \<and> createDynamicTable w (Obj [(''schemaName'', Str n), (''columns'', Arr cols)])
               = ([], Resolved (failure (''Failed to create '' @ n @ '' table.'')))"
proof -
  let ?kept = "filter ownName cols"
  have objs: "\<forall>c\<in>set cols. c \<noteq> Undefined \<and> c \<noteq> Null"
  proof
    fix c assume "c \<in> set cols"
    with assms(2) obtain nm where "getProp c ''name'' = Inr (Str nm)" by blast
    then show "c \<noteq> Undefined \<and> c \<noteq> Null" by (auto simp: getProp_def)
  qed
  have merged: "allColumns cols = Inr (defaultColumns @ ?kept)"
    by (rule allColumns_filter [OF objs])
  have typed: "\<forall>c\<in>set ?kept. \<exists>nm ty. getProp c ''name'' = Inr (Str nm) \<and> getProp c ''type'' = Inr (Str ty)"
    using assms(2) by simp
  from assms(3) obtain c0 where c0: "c0 \<in> set cols" "ownName c0"
    "getProp c0 ''type'' \<notin> (\<lambda>ty. Inr (Str ty)) ` set supportedTypes"
    by blast
  then have "c0 \<in> set ?kept" by simp
  with c0(3)
  have bad: "\<exists>c\<in>set ?kept. getProp c ''type'' \<notin> (\<lambda>ty. Inr (Str ty)) ` set supportedTypes"
    by blast
  from mapE_first_unsupported [OF typed bad] obtain ty where ty: "ty \<notin> set supportedTypes"
    "\<exists>c\<in>set ?kept. getProp c ''type'' = Inr (Str ty)"
    "mapE columnDefinition ?kept = Inl (UnsupportedType ty)"
    by blast
  have ne: "cols \<noteq> []" using c0(1) by auto
  have "andThen (allColumns cols) (mapE columnDefinition) = Inl (UnsupportedType ty)"
    by (simp add: merged andThen_def mapE_append baseline_definitions ty(3))
  then have thrown: "createDynamicTable_try w (Str n) (Arr cols) = ([], Inl (UnsupportedType ty))"
    using assms(1) ne
    by (simp add: createDynamicTable_try_def validateName_Str)
  have env: "createDynamicTable w (Obj [(''schemaName'', Str n), (''columns'', Arr cols)])
               = ([], Resolved (failure (''Failed to create '' @ n @ '' table.'')))"
    by (simp add: createDynamicTable_def getProp_def andThen_def thrown)
  have msg: "contains (errorMessage (UnsupportedType ty)) ty"
    by (simp only: errorMessage.simps contains_append)
  from ty(2) have "\<exists>c\<in>set cols. getProp c ''type'' = Inr (Str ty)" by auto
  with ty(1) thrown msg env show ?thesis by blast
qed

text \<open>
  The envelope of a call with the unsupported type \<^verbatim>\<open>json\<close> does not mention the type.
\<close>

theorem createDynamicTable_unsupported_type_counterexample:
  "createDynamicTable emptyStore
     (Obj [(''schemaName'', Str ''t''),
           (''columns'', Arr [Obj [(''name'', Str ''x''), (''type'', Str ''json'')]])])
     = ([], Resolved (failure ''Failed to create t table.''))
   \<and> \<not> contains ''Failed to create t table.'' ''json''"
  by code_simp

theorem createDynamicTable_unsupported_type_witness:
  "identifier_grammar ''t''
   \<and> getProp (Obj [(''name'', Str ''x''), (''type'', Str ''json'')]) ''name'' = Inr (Str ''x'')
   \<and> getProp (Obj [(''name'', Str ''x''), (''type'', Str ''json'')]) ''type'' = Inr (Str ''json'')
   \<and> ownName (Obj [(''name'', Str ''x''), (''type'', Str ''json'')])
   \<and> ''json'' \<notin> set supportedTypes
   \<and> createDynamicTable_try emptyStore (Str ''t'')
         (Arr [Obj [(''name'', Str ''x''), (''type'', Str ''json'')]])
       = ([], Inl (UnsupportedType ''json''))
   \<and> createDynamicTable emptyStore
         (Obj [(''schemaName'', Str ''t''),
               (''columns'', Arr [Obj [(''name'', Str ''x''), (''type'', Str ''json'')]])])
       = ([], Resolved (failure ''Failed to create t table.''))"
proof -
  let ?cols = "[Obj [(''name'', Str ''x''), (''type'', Str ''json'')]]"
  have i: "identifier_grammar ''t''"
    by (simp add: identifier_grammar_def is_letter_def)
  have t: "\<forall>c\<in>set ?cols. \<exists>nm ty. getProp c ''name'' = Inr (Str nm) \<and> getProp c ''type'' = Inr (Str ty)"
    by (simp add: getProp_def)
  have b: "\<exists>c\<in>set ?cols. ownName c \<and> getProp c ''type'' \<notin> (\<lambda>ty. Inr (Str ty)) ` set supportedTypes"
    by (simp add: getProp_def ownName_def baselineNames_def supportedTypes_def)
  from createDynamicTable_unsupported_type [OF i t b, of emptyStore]
  obtain ty where ty: "\<exists>c\<in>set ?cols. getProp c ''type'' = Inr (Str ty)"
    and thrown: "createDynamicTable_try emptyStore (Str ''t'') (Arr ?cols) = ([], Inl (UnsupportedType ty))"
    and env: "createDynamicTable emptyStore (Obj [(''schemaName'', Str ''t''), (''columns'', Arr ?cols)])
               = ([], Resolved (failure (''Failed to create '' @ ''t'' @ '' table.'')))"
    by blast
  from ty have "ty = ''json''" by (simp add: getProp_def)
  with thrown have 1: "createDynamicTable_try emptyStore (Str ''t'') (Arr ?cols)
      = ([], Inl (UnsupportedType ''json''))" by simp
  from env have 2: "createDynamicTable emptyStore (Obj [(''schemaName'', Str ''t''), (''columns'', Arr ?cols)])
               = ([], Resolved (failure ''Failed to create t table.''))" by simp
  have p1: "getProp (Obj [(''name'', Str ''x''), (''type'', Str ''json'')]) ''name'' = Inr (Str ''x'')"
    and p2: "getProp (Obj [(''name'', Str ''x''), (''type'', Str ''json'')]) ''type'' = Inr (Str ''json'')"
    and p3: "ownName (Obj [(''name'', Str ''x''), (''type'', Str ''json'')])"
    and p4: "''json'' \<notin> set supportedTypes"
    by (simp_all add: getProp_def ownName_def baselineNames_def supportedTypes_def)
  from i p1 p2 p3 p4 1 2 show ?thesis by (intro conjI)
qed

section \<open>Batches of updates\<close>

lemma issueUpdates_all:
  assumes "mapE (updateStatement t) es = Inr qs"
  shows "issueUpdates w t issued es = (issued @ qs, Inr (responses w issued qs))"
  using assms
proof (induction es arbitrary: issued qs)
  case Nil
  then show ?case by simp
next
  case (Cons e es)
  from Cons.prems obtain q qs' where q: "updateStatement t e = Inr q"
    and qs': "mapE (updateStatement t) es = Inr qs'" and qs: "qs = q # qs'"
    by (auto split: sum.splits)
  show ?case
    by (simp add: q qs Cons.IH [OF qs'] andThen_def)
qed

lemma promiseAll_failed:
  assumes "Failed m0 \<in> set rs"
  shows "\<exists>m. Failed m \<in> set rs \<and> promiseAll w rs = Inl (StoreError m)"
proof -
  let ?f = "concat (map (\<lambda>r. case r of Failed m \<Rightarrow> [m] | Rows xs \<Rightarrow> []) rs)"
  have mem: "m \<in> set ?f \<longleftrightarrow> Failed m \<in> set rs" for m
    by (auto split: response.splits)
  from assms have ne: "?f \<noteq> []" using mem [of m0] by (metis empty_iff empty_set)
  let ?m = "?f ! (winner w (length ?f) mod length ?f)"
  from ne have "?m \<in> set ?f" by (intro nth_mem) simp
  then have "Failed ?m \<in> set rs" by (simp only: mem)
  moreover have "promiseAll w rs = Inl (StoreError ?m)"
    using ne by (simp add: promiseAll_def Let_def)
  ultimately show ?thesis by blast
qed

lemma promiseAll_rows:
  assumes "\<forall>r\<in>set rs. \<exists>xs. r = Rows xs"
  shows "promiseAll w rs = Inr (concat (map (\<lambda>r. case r of Rows xs \<Rightarrow> xs | Failed m \<Rightarrow> []) rs))"
proof -
  have "concat (map (\<lambda>r. case r of Failed m \<Rightarrow> [m] | Rows xs \<Rightarrow> []) rs) = []"
    using assms by (induction rs) auto
  then show ?thesis by (simp add: promiseAll_def)
qed

lemma updateDataInTable_try_updates_only:
  assumes "identifier_grammar n" "es \<noteq> []" "mapE (updateStatement n) es = Inr qs"
  shows "updateDataInTable_try w (Str n) (Arr es) (Arr []) =
           (qs, andThen (promiseAll w (responses w [] qs)) (\<lambda>rows. Inr (withData rows)))"
  using assms(1,2)
  by (simp add: updateDataInTable_try_def validateName_Str andThen_def getProp_def
      greaterThanZero_def issueUpdates_all [OF assms(3)] iterate_def)


section \<open>Errors of the store in the data-mutation operations\<close>

text \<open>
  C7 (as amended).  When the store rejects the statement of an insert or of a remove, the
  operation returns the failure envelope with the fixed message \<^verbatim>\<open>Failed to add data.\<close> or
  \<^verbatim>\<open>Failed to remove data.\<close>, whatever the text of the store's error.  When the store
  rejects a statement of a batch of updates, the message of the failure envelope is the
  text of one of the store's errors itself; the generic \<^verbatim>\<open>Failed to update data/schema.\<close>
  stands in only for an empty text.
\<close>

theorem store_error_envelopes:
  assumes "identifier_grammar n"
  shows "(\<not> nothingProvided d \<and> insertStatement n (asList d) = Inr q \<and> answer w [] q = Failed m
            \<longrightarrow> addDataToTable w (Obj [(''tableName'', Str n), (''data'', d)])
                  = ([q], Resolved (failure ''Failed to add data.'')))
       \<and> (\<not> nothingProvided ids
            \<and> answer w [] \<lparr>sql = ''DELETE FROM '' @ n @ '' WHERE id = ANY($1) RETURNING *'',
                             params = [Arr (asList ids)]\<rparr> = Failed m
            \<longrightarrow> removeDataFromTable w (Obj [(''tableName'', Str n), (''ids'', ids)])
                  = ([\<lparr>sql = ''DELETE FROM '' @ n @ '' WHERE id = ANY($1) RETURNING *'',
                       params = [Arr (asList ids)]\<rparr>],
                     Resolved (failure ''Failed to remove data.'')))
       \<and> (es \<noteq> [] \<and> mapE (updateStatement n) es = Inr qs \<and> Failed m \<in> set (responses w [] qs)
            \<longrightarrow> (\<exists>m'. Failed m' \<in> set (responses w [] qs)
                  \<and> updateDataInTable w (Obj [(''tableName'', Str n), (''updates'', Arr es)])
                      = (qs, Resolved (failure (if m' \<noteq> [] then m'
                                                else ''Failed to update data/schema.'')))))"
proof (intro conjI impI)
  assume a: "\<not> nothingProvided d \<and> insertStatement n (asList d) = Inr q \<and> answer w [] q = Failed m"
  then have "addDataToTable_try w (Str n) d = ([q], Inl (StoreError m))"
    using assms by (simp add: addDataToTable_try_def validateName_Str andThen_def poolQuery_def)
  then show "addDataToTable w (Obj [(''tableName'', Str n), (''data'', d)])
                  = ([q], Resolved (failure ''Failed to add data.''))"
    by (simp add: addDataToTable_def getProp_def andThen_def)
next
  let ?q = "\<lparr>sql = ''DELETE FROM '' @ n @ '' WHERE id = ANY($1) RETURNING *'',
             params = [Arr (asList ids)]\<rparr>"
  assume a: "\<not> nothingProvided ids \<and> answer w [] ?q = Failed m"
  then have "removeDataFromTable_try w (Str n) ids = ([?q], Inl (StoreError m))"
    using assms by (simp add: removeDataFromTable_try_def validateName_Str poolQuery_def)
  then show "removeDataFromTable w (Obj [(''tableName'', Str n), (''ids'', ids)])
                  = ([?q], Resolved (failure ''Failed to remove data.''))"
    by (simp add: removeDataFromTable_def getProp_def andThen_def)
next
  assume a: "es \<noteq> [] \<and> mapE (updateStatement n) es = Inr qs \<and> Failed m \<in> set (responses w [] qs)"
  then obtain m' where m': "Failed m' \<in> set (responses w [] qs)"
    "promiseAll w (responses w [] qs) = Inl (StoreError m')"
    using promiseAll_failed by blast
  from a assms have "updateDataInTable_try w (Str n) (Arr es) (Arr []) = (qs, Inl (StoreError m'))"
    by (simp add: updateDataInTable_try_updates_only m'(2) andThen_def)
  then have "updateDataInTable w (Obj [(''tableName'', Str n), (''updates'', Arr es)])
                      = (qs, Resolved (failure (if m' \<noteq> [] then m'
                                                else ''Failed to update data/schema.'')))"
    by (simp add: updateDataInTable_def getProp_def andThen_def orDefault_def)
  with m'(1) show "\<exists>m'. Failed m' \<in> set (responses w [] qs)
                  \<and> updateDataInTable w (Obj [(''tableName'', Str n), (''updates'', Arr es)])
                      = (qs, Resolved (failure (if m' \<noteq> [] then m'
                                                else ''Failed to update data/schema.'')))"
    by blast
qed

text \<open>An update whose statement the store rejects returns the store's text as its message.\<close>

theorem store_error_envelopes_counterexample:
  "updateDataInTable (failingStore ''duplicate key value violates unique constraint'')
     (Obj [(''tableName'', Str ''widgets''),
           (''updates'', Arr [Obj [(''id'', Num 1), (''data'', Obj [(''title'', Str ''x'')])]])])
   = ([\<lparr>sql = ''UPDATE widgets SET title = $1, updated_at = NOW() WHERE id = $2 RETURNING *'',
        params = [Str ''x'', Num 1]\<rparr>],
      Resolved (failure ''duplicate key value violates unique constraint''))"
  by code_simp


theorem store_error_envelopes_witness:
  "identifier_grammar ''widgets''
   \<and> addDataToTable (failingStore ''connection lost'')
         (Obj [(''tableName'', Str ''widgets''), (''data'', Obj [(''title'', Str ''a'')])])
       = ([\<lparr>sql = ''INSERT INTO widgets (title) VALUES ($1) RETURNING *'', params = [Str ''a'']\<rparr>],
          Resolved (failure ''Failed to add data.''))
   \<and> removeDataFromTable (failingStore ''connection lost'')
         (Obj [(''tableName'', Str ''widgets''), (''ids'', Arr [Num 1, Num 2])])
       = ([\<lparr>sql = ''DELETE FROM widgets WHERE id = ANY($1) RETURNING *'',
            params = [Arr [Num 1, Num 2]]\<rparr>],
          Resolved (failure ''Failed to remove data.''))
   \<and> updateDataInTable (failingStore ''connection lost'')
         (Obj [(''tableName'', Str ''widgets''),
               (''updates'', Arr [Obj [(''id'', Num 1), (''data'', Obj [(''title'', Str ''x'')])]])])
       = ([\<lparr>sql = ''UPDATE widgets SET title = $1, updated_at = NOW() WHERE id = $2 RETURNING *'',
            params = [Str ''x'', Num 1]\<rparr>],
          Resolved (failure ''connection lost''))"
proof -
  let ?w = "failingStore ''connection lost''"
  let ?d = "Obj [(''title'', Str ''a'')]"
  let ?q = "\<lparr>sql = ''INSERT INTO widgets (title) VALUES ($1) RETURNING *'', params = [Str ''a'']\<rparr>"
  let ?ids = "Arr [Num 1, Num 2]"
  let ?es = "[Obj [(''id'', Num 1), (''data'', Obj [(''title'', Str ''x'')])]]"
  let ?qs = "[\<lparr>sql = ''UPDATE widgets SET title = $1, updated_at = NOW() WHERE id = $2 RETURNING *'',
               params = [Str ''x'', Num 1]\<rparr>]"
  have i: "identifier_grammar ''widgets''"
    by (simp add: identifier_grammar_def is_letter_def)
  have ins: "\<not> nothingProvided ?d \<and> insertStatement ''widgets'' (asList ?d) = Inr ?q
               \<and> answer ?w [] ?q = Failed ''connection lost''"
    by code_simp
  have del: "\<not> nothingProvided ?ids
       \<and> answer ?w [] \<lparr>sql = ''DELETE FROM '' @ ''widgets'' @ '' WHERE id = ANY($1) RETURNING *'',
                         params = [Arr (asList ?ids)]\<rparr> = Failed ''connection lost''"
    by code_simp
  have stmts: "mapE (updateStatement ''widgets'') ?es = Inr ?qs"
    by code_simp
  have resp: "responses ?w [] ?qs = [Failed ''connection lost'']"
    by (simp add: failingStore_def)
  have upd: "?es \<noteq> [] \<and> mapE (updateStatement ''widgets'') ?es = Inr ?qs
               \<and> Failed ''connection lost'' \<in> set (responses ?w [] ?qs)"
    using stmts resp by simp
  note t = store_error_envelopes [OF i, of ?d ?q ?w "''connection lost''" ?ids ?es ?qs]
  from t ins have r1: "addDataToTable ?w (Obj [(''tableName'', Str ''widgets''), (''data'', ?d)])
       = ([?q], Resolved (failure ''Failed to add data.''))"
    by blast
  from t del have r2: "removeDataFromTable ?w (Obj [(''tableName'', Str ''widgets''), (''ids'', ?ids)])
       = ([\<lparr>sql = ''DELETE FROM '' @ ''widgets'' @ '' WHERE id = ANY($1) RETURNING *'',
            params = [Arr (asList ?ids)]\<rparr>],
          Resolved (failure ''Failed to remove data.''))"
    by blast
  from t upd obtain m' where m': "Failed m' \<in> set (responses ?w [] ?qs)"
    and u: "updateDataInTable ?w (Obj [(''tableName'', Str ''widgets''), (''updates'', Arr ?es)])
              = (?qs, Resolved (failure (if m' \<noteq> [] then m' else ''Failed to update data/schema.'')))"
    by blast
  from m' have "m' = ''connection lost''" by (simp only: resp) simp
  with u have r3: "updateDataInTable ?w (Obj [(''tableName'', Str ''widgets''), (''updates'', Arr ?es)])
              = (?qs, Resolved (failure ''connection lost''))"
    by simp
  from r2 have r2b: "removeDataFromTable ?w (Obj [(''tableName'', Str ''widgets''), (''ids'', ?ids)])
       = ([\<lparr>sql = ''DELETE FROM widgets WHERE id = ANY($1) RETURNING *'',
            params = [Arr [Num 1, Num 2]]\<rparr>],
          Resolved (failure ''Failed to remove data.''))"
    by (simp add: asList_def)
  from i r1 r2b r3 show ?thesis by (intro conjI)
qed

section \<open>The statement of each update\<close>











section \<open>Inserting rows: one statement, numbered row by row\<close>

lemma chunks_upt:
  "chunks r c [s..<s + r * c] = map (\<lambda>i. [s + i * c..<s + i * c + c]) [0..<r]"
proof (induction r arbitrary: s)
  case 0
  then show ?case by simp
next
  case (Suc r)
  have t: "take c [s..<s + Suc r * c] = [s..<s + c]"
    by (simp add: take_upt)
  have e: "s + Suc r * c = (s + c) + r * c" by simp
  have d: "drop c [s..<s + Suc r * c] = [(s + c)..<(s + c) + r * c]"
    unfolding e by (simp only: drop_upt)
  have "map (\<lambda>i. [s + i * c..<s + i * c + c]) [0..<Suc r]
        = [s..<s + c] # map (\<lambda>i. [s + i * c..<s + i * c + c]) (map Suc [0..<r])"
    by (simp only: map_Suc_upt upt_conv_Cons [of 0 "Suc r"]) simp
  also have "map (\<lambda>i. [s + i * c..<s + i * c + c]) (map Suc [0..<r])
        = map (\<lambda>i. [(s + c) + i * c..<(s + c) + i * c + c]) [0..<r]"
  proof -
    have "s + Suc i * c = (s + c) + i * c" for i by simp
    then show ?thesis by (simp only: map_map o_def)
  qed
  finally show ?case
    by (simp only: chunks.simps t d Suc.IH)
qed

lemma placeholderNumbers_chunks:
  "placeholderNumbers r c = chunks r c [1..<Suc (r * c)]"
proof -
  have "map (\<lambda>j. i * c + j + 1) [0..<c] = [1 + i * c..<1 + i * c + c]" for i
    using map_add_upt [of "1 + i * c" c] by (simp add: add.commute add.left_commute)
  then have "placeholderNumbers r c = map (\<lambda>i. [1 + i * c..<1 + i * c + c]) [0..<r]"
    by (simp add: placeholderNumbers_def)
  also have "\<dots> = chunks r c [1..<1 + r * c]"
    by (rule chunks_upt [symmetric])
  finally show ?thesis by simp
qed

lemma concat_placeholderNumbers: "concat (placeholderNumbers r c) = [1..<Suc (r * c)]"
proof -
  have "concat (map (\<lambda>i. [s + i * c..<s + i * c + c]) [0..<r]) = [s..<s + r * c]" for s
  proof (induction r)
    case 0
    show ?case by simp
  next
    case (Suc r)
    have e: "s + Suc r * c = s + r * c + c" by simp
    have "[s..<s + r * c] @ [s + r * c..<s + r * c + c] = [s..<s + Suc r * c]"
      unfolding e by (rule upt_add_eq_append [symmetric]) simp
    with Suc show ?case by simp
  qed
  from this [of 1] show ?thesis
    by (simp add: placeholderNumbers_chunks chunks_upt [of r c 1, simplified])
qed

lemma mapE_vals_Obj: "mapE vals (map Obj rs) = Inr (map (map snd) rs)"
  by (induction rs) (simp_all add: vals_def entries_def andThen_def)

lemma length_concat_same:
  assumes "\<forall>xs\<in>set xss. length xs = c"
  shows "length (concat xss) = length xss * c"
  using assms by (induction xss) simp_all

lemma nth_concat_same:
  assumes "\<forall>xs\<in>set xss. length xs = c" "i < length xss" "j < c"
  shows "concat xss ! (i * c + j) = xss ! i ! j"
  using assms
proof (induction xss arbitrary: i)
  case Nil
  then show ?case by simp
next
  case (Cons xs xss)
  then have len: "length xs = c" by simp
  show ?case
  proof (cases i)
    case 0
    with Cons.prems len show ?thesis by (simp add: nth_append)
  next
    case (Suc k)
    with Cons.prems have "concat xss ! (k * c + j) = xss ! k ! j"
      by (intro Cons.IH) simp_all
    moreover have "Suc k * c + j = length xs + (k * c + j)" by (simp add: len)
    ultimately show ?thesis
      using Suc by (simp only: concat.simps nth_append_length_plus nth_Cons_Suc)
  qed
qed


lemma insertStatement_rows:
  assumes "rs \<noteq> []"
  shows "insertStatement t (map Obj rs) =
           Inr \<lparr>sql = ''INSERT INTO '' @ t @ '' ('' @ intercalate '', '' (map fst (hd rs))
                      @ '') VALUES ''
                      @ intercalate '', ''
                          (map tuple (chunks (length rs) (length (hd rs))
                                        [1..<Suc (length rs * length (hd rs))]))
                      @ '' RETURNING *'',
                params = concat (map (map snd) rs)\<rparr>"
proof -
  from assms have "index (map Obj rs) 0 = Obj (hd rs)"
    by (simp add: index_def hd_conv_nth)
  then have "keys (index (map Obj rs) 0) = Inr (map fst (hd rs))"
    by (simp add: keys_def entries_def andThen_def)
  then show ?thesis
    by (simp add: insertStatement_def andThen_def mapE_vals_Obj placeholderNumbers_chunks)
qed

lemma same_keys_same_length:
  assumes "rs \<noteq> []"
    and "\<forall>kvs\<in>set rs. distinct (map fst kvs) \<and> set (map fst kvs) = set (map fst (hd rs))"
  shows "\<forall>vs\<in>set (map (map snd) rs). length vs = length (hd rs)"
proof -
  from assms(1) have "hd rs \<in> set rs" by simp
  with assms(2) have h: "distinct (map fst (hd rs))" by blast
  have "length kvs = length (hd rs)" if "kvs \<in> set rs" for kvs
  proof -
    from that assms(2) have "distinct (map fst kvs)" "set (map fst kvs) = set (map fst (hd rs))"
      by blast+
    then have "length (map fst kvs) = length (map fst (hd rs))"
      using h by (metis distinct_card)
    then show ?thesis by simp
  qed
  then show ?thesis by auto
qed

lemma addDataToTable_issues:
  assumes "getProp arg ''tableName'' = Inr (Str n)" "getProp arg ''data'' = Inr d"
    and "identifier_grammar n" "\<not> nothingProvided d" "insertStatement n (asList d) = Inr q"
  shows "addDataToTable w arg =
           ([q], case answer w [] q of
                   Rows rows \<Rightarrow> Resolved (withData rows)
                 | Failed m \<Rightarrow> Resolved (failure ''Failed to add data.''))"
proof -
  have t: "addDataToTable_try w (Str n) d =
      ([q], case answer w [] q of Rows rows \<Rightarrow> Inr (withData rows) | Failed m \<Rightarrow> Inl (StoreError m))"
    using assms(3,4)
    by (simp add: addDataToTable_try_def validateName_Str andThen_def assms(5) poolQuery_def
        split: response.splits)
  show ?thesis
    by (simp add: addDataToTable_def assms(1,2) andThen_def t split: response.splits)
qed

lemma addDataToTable_empty:
  assumes "getProp arg ''tableName'' = Inr tn" "getProp arg ''data'' = Inr (Arr [])"
  shows "addDataToTable w arg = ([], Resolved (failure ''Failed to add data.''))"
proof -
  have "\<exists>e. addDataToTable_try w tn (Arr []) = ([], Inl e)"
    by (cases "validateName tn") (simp_all add: addDataToTable_try_def nothingProvided_def)
  then obtain e where "addDataToTable_try w tn (Arr []) = ([], Inl e)" by blast
  then show ?thesis
    by (simp add: addDataToTable_def assms andThen_def)
qed

lemma lookup_nth:
  assumes "distinct (map fst kvs)" "j < length kvs"
  shows "lookup kvs (fst (kvs ! j)) = snd (kvs ! j)"
proof -
  from assms(2) have "(fst (kvs ! j), snd (kvs ! j)) \<in> set kvs" by simp
  with assms(1) have "map_of kvs (fst (kvs ! j)) = Some (snd (kvs ! j))" by simp
  then show ?thesis by (simp add: lookup_def)
qed

lemma same_order_same_set:
  assumes "\<forall>kvs\<in>set rs. distinct (map fst kvs) \<and> map fst kvs = map fst (hd rs)"
  shows "\<forall>kvs\<in>set rs. distinct (map fst kvs) \<and> set (map fst kvs) = set (map fst (hd rs))"
  using assms by metis

text \<open>
  C2 (as amended).  A single row (a truthy value that is no array) is treated as the list
  of that one row; an empty list throws the error for missing data before any statement,
  and \<^verbatim>\<open>addDataToTable\<close> answers with the failure envelope.  For a non-empty list of rows,
  the columns are the keys of the first row, and the statement is one
  \<^verbatim>\<open>INSERT INTO t (cols) VALUES (...), (...) RETURNING *\<close> whose groups of placeholders are
  the numbers 1 to rows * columns cut into consecutive groups of one row each, bound to the
  values of the rows one row after the other, each row in the order of its own keys;
  called with a valid table name, \<^verbatim>\<open>addDataToTable\<close> issues exactly this one statement and
  returns the rows the store answers.  When all rows have the key set of the first, there
  are rows * columns values, and the placeholder of row \<open>i\<close> and column \<open>j\<close> (from 0) is
  number \<open>i * columns + j + 1\<close>, bound to the \<open>j\<close>-th value of row \<open>i\<close>.  When all rows list
  the keys of the first row in the same order, that value is the value row \<open>i\<close> gives for
  the \<open>j\<close>-th column named in the statement.
\<close>

theorem insertStatement_row_major:
  "(truthy d \<and> \<not> isArray d \<longrightarrow>
      addDataToTable w (Obj [(''tableName'', tn), (''data'', d)])
        = addDataToTable w (Obj [(''tableName'', tn), (''data'', Arr [d])]))
   \<and> (identifier_grammar n \<longrightarrow>
        addDataToTable_try w (Str n) (Arr []) = ([], Inl (EmptyInput ''No data provided.'')))
   \<and> (getProp arg ''tableName'' = Inr tn \<and> getProp arg ''data'' = Inr (Arr []) \<longrightarrow>
        addDataToTable w arg = ([], Resolved (failure ''Failed to add data.'')))
   \<and> (rs \<noteq> [] \<longrightarrow>
        insertStatement t (map Obj rs) =
           Inr \<lparr>sql = ''INSERT INTO '' @ t @ '' ('' @ intercalate '', '' (map fst (hd rs))
                      @ '') VALUES ''
                      @ intercalate '', ''
                          (map tuple (chunks (length rs) (length (hd rs))
                                        [1..<Suc (length rs * length (hd rs))]))
                      @ '' RETURNING *'',
                params = concat (map (map snd) rs)\<rparr>)
   \<and> (identifier_grammar n \<and> rs \<noteq> [] \<and> getProp arg ''tableName'' = Inr (Str n)
        \<and> getProp arg ''data'' = Inr (Arr (map Obj rs)) \<longrightarrow>
        addDataToTable w arg =
          ([\<lparr>sql = ''INSERT INTO '' @ n @ '' ('' @ intercalate '', '' (map fst (hd rs))
                      @ '') VALUES ''
                      @ intercalate '', ''
                          (map tuple (chunks (length rs) (length (hd rs))
                                        [1..<Suc (length rs * length (hd rs))]))
                      @ '' RETURNING *'',
              params = concat (map (map snd) rs)\<rparr>],
           case answer w []
                  \<lparr>sql = ''INSERT INTO '' @ n @ '' ('' @ intercalate '', '' (map fst (hd rs))
                      @ '') VALUES ''
                      @ intercalate '', ''
                          (map tuple (chunks (length rs) (length (hd rs))
                                        [1..<Suc (length rs * length (hd rs))]))
                      @ '' RETURNING *'',
                   params = concat (map (map snd) rs)\<rparr> of
             Rows rows \<Rightarrow> Resolved (withData rows)
           | Failed m \<Rightarrow> Resolved (failure ''Failed to add data.'')))
   \<and> (rs \<noteq> [] \<and> (\<forall>kvs\<in>set rs. distinct (map fst kvs)
                                   \<and> set (map fst kvs) = set (map fst (hd rs))) \<longrightarrow>
        length (concat (map (map snd) rs)) = length rs * length (hd rs)
        \<and> (\<forall>i<length rs. \<forall>j<length (hd rs).
              chunks (length rs) (length (hd rs)) [1..<Suc (length rs * length (hd rs))] ! i ! j
                = i * length (hd rs) + j + 1
              \<and> concat (map (map snd) rs) ! (i * length (hd rs) + j) = snd (rs ! i ! j)))
   \<and> (rs \<noteq> [] \<and> (\<forall>kvs\<in>set rs. distinct (map fst kvs)
                                   \<and> map fst kvs = map fst (hd rs)) \<longrightarrow>
        (\<forall>i<length rs. \<forall>j<length (hd rs).
              concat (map (map snd) rs) ! (i * length (hd rs) + j)
                = lookup (rs ! i) (map fst (hd rs) ! j)))"
proof (intro conjI)
  show "truthy d \<and> \<not> isArray d \<longrightarrow>
      addDataToTable w (Obj [(''tableName'', tn), (''data'', d)])
        = addDataToTable w (Obj [(''tableName'', tn), (''data'', Arr [d])])"
  proof
    assume a: "truthy d \<and> \<not> isArray d"
    then have "\<not> nothingProvided d" "\<not> nothingProvided (Arr [d])" "asList d = [d]"
      "asList (Arr [d]) = [d]"
      by (cases d; simp add: nothingProvided_def asList_def)+
    then have "addDataToTable_try w tn d = addDataToTable_try w tn (Arr [d])"
      by (simp add: addDataToTable_try_def cong: sum.case_cong)
    then show "addDataToTable w (Obj [(''tableName'', tn), (''data'', d)])
          = addDataToTable w (Obj [(''tableName'', tn), (''data'', Arr [d])])"
      by (simp add: addDataToTable_def getProp_def andThen_def)
  qed
  show "identifier_grammar n \<longrightarrow>
        addDataToTable_try w (Str n) (Arr []) = ([], Inl (EmptyInput ''No data provided.''))"
    by (simp add: addDataToTable_try_def validateName_Str nothingProvided_def)
  show "getProp arg ''tableName'' = Inr tn \<and> getProp arg ''data'' = Inr (Arr []) \<longrightarrow>
        addDataToTable w arg = ([], Resolved (failure ''Failed to add data.''))"
    by (intro impI, elim conjE) (rule addDataToTable_empty)
  show "rs \<noteq> [] \<longrightarrow>
        insertStatement t (map Obj rs) =
           Inr \<lparr>sql = ''INSERT INTO '' @ t @ '' ('' @ intercalate '', '' (map fst (hd rs))
                      @ '') VALUES ''
                      @ intercalate '', ''
                          (map tuple (chunks (length rs) (length (hd rs))
                                        [1..<Suc (length rs * length (hd rs))]))
                      @ '' RETURNING *'',
                params = concat (map (map snd) rs)\<rparr>"
    by (rule impI) (rule insertStatement_rows)
  show "identifier_grammar n \<and> rs \<noteq> [] \<and> getProp arg ''tableName'' = Inr (Str n)
        \<and> getProp arg ''data'' = Inr (Arr (map Obj rs)) \<longrightarrow>
        addDataToTable w arg =
          ([\<lparr>sql = ''INSERT INTO '' @ n @ '' ('' @ intercalate '', '' (map fst (hd rs))
                      @ '') VALUES ''
                      @ intercalate '', ''
                          (map tuple (chunks (length rs) (length (hd rs))
                                        [1..<Suc (length rs * length (hd rs))]))
                      @ '' RETURNING *'',
              params = concat (map (map snd) rs)\<rparr>],
           case answer w []
                  \<lparr>sql = ''INSERT INTO '' @ n @ '' ('' @ intercalate '', '' (map fst (hd rs))
                      @ '') VALUES ''
                      @ intercalate '', ''
                          (map tuple (chunks (length rs) (length (hd rs))
                                        [1..<Suc (length rs * length (hd rs))]))
                      @ '' RETURNING *'',
                   params = concat (map (map snd) rs)\<rparr> of
             Rows rows \<Rightarrow> Resolved (withData rows)
           | Failed m \<Rightarrow> Resolved (failure ''Failed to add data.''))"
  proof
    assume a: "identifier_grammar n \<and> rs \<noteq> [] \<and> getProp arg ''tableName'' = Inr (Str n)
        \<and> getProp arg ''data'' = Inr (Arr (map Obj rs))"
    then have g: "getProp arg ''tableName'' = Inr (Str n)"
      "getProp arg ''data'' = Inr (Arr (map Obj rs))" "identifier_grammar n"
      "\<not> nothingProvided (Arr (map Obj rs))"
      by (simp_all add: nothingProvided_def)
    from a have st: "insertStatement n (asList (Arr (map Obj rs))) =
           Inr \<lparr>sql = ''INSERT INTO '' @ n @ '' ('' @ intercalate '', '' (map fst (hd rs))
                      @ '') VALUES ''
                      @ intercalate '', ''
                          (map tuple (chunks (length rs) (length (hd rs))
                                        [1..<Suc (length rs * length (hd rs))]))
                      @ '' RETURNING *'',
                params = concat (map (map snd) rs)\<rparr>"
      by (simp add: asList_def insertStatement_rows)
    show "addDataToTable w arg =
          ([\<lparr>sql = ''INSERT INTO '' @ n @ '' ('' @ intercalate '', '' (map fst (hd rs))
                      @ '') VALUES ''
                      @ intercalate '', ''
                          (map tuple (chunks (length rs) (length (hd rs))
                                        [1..<Suc (length rs * length (hd rs))]))
                      @ '' RETURNING *'',
              params = concat (map (map snd) rs)\<rparr>],
           case answer w []
                  \<lparr>sql = ''INSERT INTO '' @ n @ '' ('' @ intercalate '', '' (map fst (hd rs))
                      @ '') VALUES ''
                      @ intercalate '', ''
                          (map tuple (chunks (length rs) (length (hd rs))
                                        [1..<Suc (length rs * length (hd rs))]))
                      @ '' RETURNING *'',
                   params = concat (map (map snd) rs)\<rparr> of
             Rows rows \<Rightarrow> Resolved (withData rows)
           | Failed m \<Rightarrow> Resolved (failure ''Failed to add data.''))"
      by (rule addDataToTable_issues [OF g st])
  qed
  have slots: "length (concat (map (map snd) rs)) = length rs * length (hd rs)
        \<and> (\<forall>i<length rs. \<forall>j<length (hd rs).
              chunks (length rs) (length (hd rs)) [1..<Suc (length rs * length (hd rs))] ! i ! j
                = i * length (hd rs) + j + 1
              \<and> concat (map (map snd) rs) ! (i * length (hd rs) + j) = snd (rs ! i ! j))"
    if a: "rs \<noteq> [] \<and> (\<forall>kvs\<in>set rs. distinct (map fst kvs)
                                   \<and> set (map fst kvs) = set (map fst (hd rs)))"
  proof (intro conjI allI impI)
    from a have len: "\<forall>vs\<in>set (map (map snd) rs). length vs = length (hd rs)"
      using same_keys_same_length by blast
    from length_concat_same [OF len]
    show "length (concat (map (map snd) rs)) = length rs * length (hd rs)" by simp
    fix i j assume i: "i < length rs" and j: "j < length (hd rs)"
    have "placeholderNumbers (length rs) (length (hd rs)) ! i ! j = i * length (hd rs) + j + 1"
      using i j by (simp add: placeholderNumbers_def)
    then show "chunks (length rs) (length (hd rs)) [1..<Suc (length rs * length (hd rs))] ! i ! j
                  = i * length (hd rs) + j + 1"
      by (simp only: placeholderNumbers_chunks)
    from a i have "rs ! i \<in> set rs" by simp
    with len have "length (rs ! i) = length (hd rs)" by simp
    with j have "map snd (rs ! i) ! j = snd (rs ! i ! j)" by simp
    moreover have "concat (map (map snd) rs) ! (i * length (hd rs) + j) = map (map snd) rs ! i ! j"
      using i j by (intro nth_concat_same [OF len]) simp_all
    ultimately show "concat (map (map snd) rs) ! (i * length (hd rs) + j) = snd (rs ! i ! j)"
      using i by simp
  qed
  show "rs \<noteq> [] \<and> (\<forall>kvs\<in>set rs. distinct (map fst kvs)
                                   \<and> set (map fst kvs) = set (map fst (hd rs))) \<longrightarrow>
        length (concat (map (map snd) rs)) = length rs * length (hd rs)
        \<and> (\<forall>i<length rs. \<forall>j<length (hd rs).
              chunks (length rs) (length (hd rs)) [1..<Suc (length rs * length (hd rs))] ! i ! j
                = i * length (hd rs) + j + 1
              \<and> concat (map (map snd) rs) ! (i * length (hd rs) + j) = snd (rs ! i ! j))"
    by (rule impI) (rule slots)
  show "rs \<noteq> [] \<and> (\<forall>kvs\<in>set rs. distinct (map fst kvs)
                                   \<and> map fst kvs = map fst (hd rs)) \<longrightarrow>
        (\<forall>i<length rs. \<forall>j<length (hd rs).
              concat (map (map snd) rs) ! (i * length (hd rs) + j)
                = lookup (rs ! i) (map fst (hd rs) ! j))"
  proof (intro impI allI)
    fix i j
    assume a: "rs \<noteq> [] \<and> (\<forall>kvs\<in>set rs. distinct (map fst kvs)
                                   \<and> map fst kvs = map fst (hd rs))"
      and i: "i < length rs" and j: "j < length (hd rs)"
    from a have ne: "rs \<noteq> []" by (rule conjunct1)
    from a have ord: "\<forall>kvs\<in>set rs. distinct (map fst kvs) \<and> map fst kvs = map fst (hd rs)"
      by (rule conjunct2)
    from ne same_order_same_set [OF ord]
    have s2: "rs \<noteq> [] \<and> (\<forall>kvs\<in>set rs. distinct (map fst kvs)
                                   \<and> set (map fst kvs) = set (map fst (hd rs)))"
      by (rule conjI)
    from slots [OF s2] have "\<forall>i<length rs. \<forall>j<length (hd rs).
              chunks (length rs) (length (hd rs)) [1..<Suc (length rs * length (hd rs))] ! i ! j
                = i * length (hd rs) + j + 1
              \<and> concat (map (map snd) rs) ! (i * length (hd rs) + j) = snd (rs ! i ! j)"
      by (rule conjunct2)
    from this [rule_format, OF i j]
    have v: "concat (map (map snd) rs) ! (i * length (hd rs) + j) = snd (rs ! i ! j)"
      by (rule conjunct2)
    from i have mem: "rs ! i \<in> set rs" by simp
    with ord have d: "distinct (map fst (rs ! i))" and k: "map fst (rs ! i) = map fst (hd rs)"
      by blast+
    have "length (map fst (rs ! i)) = length (map fst (hd rs))" by (simp only: k)
    with j have j': "j < length (rs ! i)" by simp
    then have "map fst (rs ! i) ! j = fst (rs ! i ! j)" by simp
    then have f: "map fst (hd rs) ! j = fst (rs ! i ! j)" by (simp only: k)
    from lookup_nth [OF d j'] v f
    show "concat (map (map snd) rs) ! (i * length (hd rs) + j)
                = lookup (rs ! i) (map fst (hd rs) ! j)"
      by simp
  qed
qed

text \<open>
  That the rows share the key set of the first row is not enough for the values to be
  bound column by column: for the rows
  \<^verbatim>\<open>{a: 1, b: 2}\<close> and \<^verbatim>\<open>{b: 3, a: 4}\<close> the statement names the columns \<^verbatim>\<open>a, b\<close>, and
  placeholder 3, which stands in column \<^verbatim>\<open>a\<close> of the second row, is bound to 3, the
  second row's value for \<^verbatim>\<open>b\<close>, and not to 4.
\<close>

theorem insertStatement_row_major_counterexample:
  "distinct (map fst [(''a'', Num 1), (''b'', Num 2)])
   \<and> distinct (map fst [(''b'', Num 3), (''a'', Num 4)])
   \<and> set (map fst [(''b'', Num 3), (''a'', Num 4)]) = set (map fst [(''a'', Num 1), (''b'', Num 2)])
   \<and> addDataToTable emptyStore
        (Obj [(''tableName'', Str ''t''),
              (''data'', Arr [Obj [(''a'', Num 1), (''b'', Num 2)],
                              Obj [(''b'', Num 3), (''a'', Num 4)]])])
     = ([\<lparr>sql = ''INSERT INTO t (a, b) VALUES ($1, $2), ($3, $4) RETURNING *'',
          params = [Num 1, Num 2, Num 3, Num 4]\<rparr>],
        Resolved (withData []))
   \<and> lookup [(''b'', Num 3), (''a'', Num 4)] ''a'' = Num 4
   \<and> [Num 1, Num 2, Num 3, Num 4] ! 2 \<noteq> lookup [(''b'', Num 3), (''a'', Num 4)] ''a''"
  by code_simp

theorem insertStatement_row_major_witness:
  "truthy (Obj [(''title'', Str ''a'')]) \<and> \<not> isArray (Obj [(''title'', Str ''a'')])
   \<and> addDataToTable emptyStore
         (Obj [(''tableName'', Str ''widgets''), (''data'', Obj [(''title'', Str ''a'')])])
       = ([\<lparr>sql = ''INSERT INTO widgets (title) VALUES ($1) RETURNING *'', params = [Str ''a'']\<rparr>],
          Resolved (withData []))
   \<and> identifier_grammar ''widgets''
   \<and> addDataToTable_try emptyStore (Str ''widgets'') (Arr [])
       = ([], Inl (EmptyInput ''No data provided.''))
   \<and> insertStatement ''widgets''
         (map Obj [[(''title'', Str ''a''), (''n'', Num 1)], [(''title'', Str ''b''), (''n'', Num 2)]])
       = Inr \<lparr>sql = ''INSERT INTO widgets (title, n) VALUES ($1, $2), ($3, $4) RETURNING *'',
              params = [Str ''a'', Num 1, Str ''b'', Num 2]\<rparr>
   \<and> length (concat (map (map snd)
         [[(''title'', Str ''a''), (''n'', Num 1)], [(''title'', Str ''b''), (''n'', Num 2)]])) = 2 * 2
   \<and> chunks 2 2 [1..<Suc (2 * 2)] ! 1 ! 0 = 1 * 2 + 0 + 1
   \<and> concat (map (map snd)
         [[(''title'', Str ''a''), (''n'', Num 1)], [(''title'', Str ''b''), (''n'', Num 2)]])
         ! (1 * 2 + 0) = Str ''b''
   \<and> addDataToTable emptyStore (Obj [(''tableName'', Str ''widgets''), (''data'', Arr [])])
       = ([], Resolved (failure ''Failed to add data.''))
   \<and> addDataToTable emptyStore
         (Obj [(''tableName'', Str ''widgets''),
               (''data'', Arr [Obj [(''title'', Str ''a''), (''n'', Num 1)],
                               Obj [(''title'', Str ''b''), (''n'', Num 2)]])])
       = ([\<lparr>sql = ''INSERT INTO widgets (title, n) VALUES ($1, $2), ($3, $4) RETURNING *'',
            params = [Str ''a'', Num 1, Str ''b'', Num 2]\<rparr>],
          Resolved (withData []))
   \<and> concat (map (map snd)
         [[(''title'', Str ''a''), (''n'', Num 1)], [(''title'', Str ''b''), (''n'', Num 2)]])
         ! (1 * 2 + 1) = lookup [(''title'', Str ''b''), (''n'', Num 2)] ''n''"
proof -
  let ?d = "Obj [(''title'', Str ''a'')]"
  let ?rs = "[[(''title'', Str ''a''), (''n'', Num 1)], [(''title'', Str ''b''), (''n'', Num 2 :: jsval)]]"
  let ?none = "Obj [(''tableName'', Str ''widgets''), (''data'', Arr [])]"
  let ?two = "Obj [(''tableName'', Str ''widgets''), (''data'', Arr (map Obj ?rs))]"
  note t = insertStatement_row_major [where d = ?d and w = emptyStore and tn = "Str ''widgets''"
      and n = "''widgets''" and rs = ?rs and t = "''widgets''" and arg = ?two]
  note t0 = insertStatement_row_major [where d = ?d and w = emptyStore and tn = "Str ''widgets''"
      and n = "''widgets''" and rs = ?rs and t = "''widgets''" and arg = ?none]
  have h1: "truthy ?d \<and> \<not> isArray ?d" by simp
  have i: "identifier_grammar ''widgets''"
    by (simp add: identifier_grammar_def is_letter_def)
  have ne: "?rs \<noteq> []" by simp
  have same: "?rs \<noteq> [] \<and> (\<forall>kvs\<in>set ?rs. distinct (map fst kvs)
                 \<and> set (map fst kvs) = set (map fst (hd ?rs)))"
    by simp
  have ev: "addDataToTable emptyStore (Obj [(''tableName'', Str ''widgets''), (''data'', Arr [?d])])
       = ([\<lparr>sql = ''INSERT INTO widgets (title) VALUES ($1) RETURNING *'', params = [Str ''a'']\<rparr>],
          Resolved (withData []))"
    by code_simp
  from t h1 have "addDataToTable emptyStore (Obj [(''tableName'', Str ''widgets''), (''data'', ?d)])
      = addDataToTable emptyStore (Obj [(''tableName'', Str ''widgets''), (''data'', Arr [?d])])"
    by blast
  with ev have r1: "addDataToTable emptyStore (Obj [(''tableName'', Str ''widgets''), (''data'', ?d)])
       = ([\<lparr>sql = ''INSERT INTO widgets (title) VALUES ($1) RETURNING *'', params = [Str ''a'']\<rparr>],
          Resolved (withData []))"
    by simp
  from t i have r2: "addDataToTable_try emptyStore (Str ''widgets'') (Arr [])
       = ([], Inl (EmptyInput ''No data provided.''))"
    by blast
  have sqlv: "''INSERT INTO '' @ ''widgets'' @ '' ('' @ intercalate '', '' (map fst (hd ?rs))
                      @ '') VALUES ''
                      @ intercalate '', ''
                          (map tuple (chunks (length ?rs) (length (hd ?rs))
                                        [1..<Suc (length ?rs * length (hd ?rs))]))
                      @ '' RETURNING *''
      = ''INSERT INTO widgets (title, n) VALUES ($1, $2), ($3, $4) RETURNING *''"
    by code_simp
  from t ne have "insertStatement ''widgets'' (map Obj ?rs) =
           Inr \<lparr>sql = ''INSERT INTO '' @ ''widgets'' @ '' ('' @ intercalate '', '' (map fst (hd ?rs))
                      @ '') VALUES ''
                      @ intercalate '', ''
                          (map tuple (chunks (length ?rs) (length (hd ?rs))
                                        [1..<Suc (length ?rs * length (hd ?rs))]))
                      @ '' RETURNING *'',
                params = concat (map (map snd) ?rs)\<rparr>"
    by blast
  then have r3: "insertStatement ''widgets'' (map Obj ?rs)
       = Inr \<lparr>sql = ''INSERT INTO widgets (title, n) VALUES ($1, $2), ($3, $4) RETURNING *'',
              params = [Str ''a'', Num 1, Str ''b'', Num 2]\<rparr>"
    by (simp only: sqlv) simp
  from t same have r4: "length (concat (map (map snd) ?rs)) = length ?rs * length (hd ?rs)
        \<and> (\<forall>i<length ?rs. \<forall>j<length (hd ?rs).
              chunks (length ?rs) (length (hd ?rs)) [1..<Suc (length ?rs * length (hd ?rs))] ! i ! j
                = i * length (hd ?rs) + j + 1
              \<and> concat (map (map snd) ?rs) ! (i * length (hd ?rs) + j) = snd (?rs ! i ! j))"
    by blast
  have l1: "length ?rs = 2" and l2: "length (hd ?rs) = 2" by simp_all
  from r4 have r5: "length (concat (map (map snd) ?rs)) = 2 * 2"
    unfolding l1 l2 by (rule conjunct1)
  from r4 have all: "\<forall>i<2. \<forall>j<2.
              chunks 2 2 [1..<Suc (2 * 2)] ! i ! j = i * 2 + j + 1
              \<and> concat (map (map snd) ?rs) ! (i * 2 + j) = snd (?rs ! i ! j)"
    unfolding l1 l2 by (rule conjunct2)
  have b: "(1::nat) < 2" "(0::nat) < 2" by simp_all
  from all b have p: "chunks 2 2 [1..<Suc (2 * 2)] ! 1 ! 0 = 1 * 2 + 0 + 1
              \<and> concat (map (map snd) ?rs) ! (1 * 2 + 0) = snd (?rs ! 1 ! 0)"
    by blast
  then have r6: "chunks 2 2 [1..<Suc (2 * 2)] ! 1 ! 0 = 1 * 2 + 0 + 1" by (rule conjunct1)
  have v: "snd (?rs ! 1 ! 0) = Str ''b''" by simp
  from p have r7: "concat (map (map snd) ?rs) ! (1 * 2 + 0) = Str ''b''"
    unfolding v by (rule conjunct2)
  have g0: "getProp ?none ''tableName'' = Inr (Str ''widgets'')
            \<and> getProp ?none ''data'' = Inr (Arr [])"
    by (simp add: getProp_def)
  from t0 g0 have r8: "addDataToTable emptyStore ?none
       = ([], Resolved (failure ''Failed to add data.''))"
    by blast
  have g2: "getProp ?two ''tableName'' = Inr (Str ''widgets'')"
    "getProp ?two ''data'' = Inr (Arr (map Obj ?rs))"
    by (simp_all add: getProp_def)
  from t i ne g2 have "addDataToTable emptyStore ?two =
          ([\<lparr>sql = ''INSERT INTO '' @ ''widgets'' @ '' ('' @ intercalate '', '' (map fst (hd ?rs))
                      @ '') VALUES ''
                      @ intercalate '', ''
                          (map tuple (chunks (length ?rs) (length (hd ?rs))
                                        [1..<Suc (length ?rs * length (hd ?rs))]))
                      @ '' RETURNING *'',
              params = concat (map (map snd) ?rs)\<rparr>],
           case answer emptyStore []
                  \<lparr>sql = ''INSERT INTO '' @ ''widgets'' @ '' ('' @ intercalate '', '' (map fst (hd ?rs))
                      @ '') VALUES ''
                      @ intercalate '', ''
                          (map tuple (chunks (length ?rs) (length (hd ?rs))
                                        [1..<Suc (length ?rs * length (hd ?rs))]))
                      @ '' RETURNING *'',
                   params = concat (map (map snd) ?rs)\<rparr> of
             Rows rows \<Rightarrow> Resolved (withData rows)
           | Failed m \<Rightarrow> Resolved (failure ''Failed to add data.''))"
    by blast
  then have "addDataToTable emptyStore ?two
       = ([\<lparr>sql = ''INSERT INTO widgets (title, n) VALUES ($1, $2), ($3, $4) RETURNING *'',
            params = concat (map (map snd) ?rs)\<rparr>],
          case answer emptyStore []
                  \<lparr>sql = ''INSERT INTO widgets (title, n) VALUES ($1, $2), ($3, $4) RETURNING *'',
                   params = concat (map (map snd) ?rs)\<rparr> of
             Rows rows \<Rightarrow> Resolved (withData rows)
           | Failed m \<Rightarrow> Resolved (failure ''Failed to add data.''))"
    by (simp only: sqlv)
  then have r9: "addDataToTable emptyStore
         (Obj [(''tableName'', Str ''widgets''),
               (''data'', Arr [Obj [(''title'', Str ''a''), (''n'', Num 1)],
                               Obj [(''title'', Str ''b''), (''n'', Num 2)]])])
       = ([\<lparr>sql = ''INSERT INTO widgets (title, n) VALUES ($1, $2), ($3, $4) RETURNING *'',
            params = [Str ''a'', Num 1, Str ''b'', Num 2]\<rparr>],
          Resolved (withData []))"
    by (simp add: emptyStore_def)
  have ord: "?rs \<noteq> [] \<and> (\<forall>kvs\<in>set ?rs. distinct (map fst kvs)
                 \<and> map fst kvs = map fst (hd ?rs))"
    by simp
  from t ord have "\<forall>i<length ?rs. \<forall>j<length (hd ?rs).
              concat (map (map snd) ?rs) ! (i * length (hd ?rs) + j)
                = lookup (?rs ! i) (map fst (hd ?rs) ! j)"
    by blast
  then have al: "\<forall>i<2. \<forall>j<2.
              concat (map (map snd) ?rs) ! (i * 2 + j) = lookup (?rs ! i) (map fst (hd ?rs) ! j)"
    unfolding l1 l2 .
  have b1: "(1::nat) < 2" by simp
  from al [rule_format, OF b1 b1]
  have "concat (map (map snd) ?rs) ! (1 * 2 + 1) = lookup (?rs ! 1) (map fst (hd ?rs) ! 1)" .
  moreover have "?rs ! 1 = [(''title'', Str ''b''), (''n'', Num 2)]"
    "map fst (hd ?rs) ! 1 = ''n''" by simp_all
  ultimately have r10: "concat (map (map snd) ?rs) ! (1 * 2 + 1)
      = lookup [(''title'', Str ''b''), (''n'', Num 2)] ''n''"
    by (simp only:)
  from h1 have h1a: "truthy ?d" and h1b: "\<not> isArray ?d" by simp_all
  from h1a h1b r1 i r2 r3 r5 r6 r7 r8 r9 r10 show ?thesis by (intro conjI)
qed


section \<open>Searching: conditions and their placeholders\<close>

lemma firstOperator_comparison:
  "firstOperator (Obj kvs) operators =
     (if ''$lt'' \<in> fst ` set kvs then Some (''$lt'', ''<'')
      else if ''$gt'' \<in> fst ` set kvs then Some (''$gt'', ''>'')
      else if ''$lte'' \<in> fst ` set kvs then Some (''$lte'', ''<='')
      else if ''$gte'' \<in> fst ` set kvs then Some (''$gte'', ''>='')
      else if ''$ne'' \<in> fst ` set kvs then Some (''$ne'', ''<>'')
      else None)"
  by (simp add: operators_def hasKey_def)

lemma firstOperator_Arr: "firstOperator (Arr xs) operators = None"
  by (simp add: operators_def hasKey_def)

lemma getProp_Obj: "getProp (Obj kvs) k = Inr (lookup kvs k)"
  by (simp add: getProp_def lookup_def)

lemma buildConditions_step:
  assumes "comparison v = Some (sqlOp, bound)"
  shows "buildConditions ((k, v) # rest) cs vs =
           buildConditions rest (cs @ [k @ '' '' @ sqlOp @ '' '' @ placeholder (length vs + 1)])
             (vs @ [bound])"
proof -
  from assms have c: "Some (sqlOp, bound) = comparison v" by simp
  show ?thesis
  proof (cases v)
    case (Obj kvs)
    with c show ?thesis
      by (simp add: comparison_def isObject_def firstOperator_comparison getProp_Obj andThen_def
          placeholder_def split: if_splits)
  next
    case (Arr xs)
    with c show ?thesis by (simp add: comparison_def)
  qed (use c in \<open>simp_all add: comparison_def isObject_def placeholder_def\<close>)
qed

lemma buildConditions_unsupported:
  assumes "comparison v = None"
  shows "buildConditions ((k, v) # rest) cs vs = Inl (UnsupportedOperator k)"
proof (cases v)
  case (Obj kvs)
  with assms show ?thesis
    by (simp add: comparison_def isObject_def firstOperator_comparison split: if_splits)
next
  case (Arr xs)
  then show ?thesis by (simp add: isObject_def firstOperator_Arr)
qed (use assms in \<open>simp_all add: comparison_def\<close>)

lemma buildConditions_all:
  assumes "\<forall>kv\<in>set kvs. comparison (snd kv) \<noteq> None"
  shows "buildConditions kvs cs vs =
           Inr (cs @ map (\<lambda>(n, kv). conditionText n kv) (enumerate (length vs + 1) kvs),
                vs @ map boundOf kvs)"
  using assms
proof (induction kvs arbitrary: cs vs)
  case Nil
  then show ?case by simp
next
  case (Cons kv kvs)
  obtain k v where kv: "kv = (k, v)" by (cases kv)
  with Cons.prems obtain sqlOp bound where c: "comparison v = Some (sqlOp, bound)"
    by auto
  from Cons.prems have rest: "\<forall>kv\<in>set kvs. comparison (snd kv) \<noteq> None" by simp
  have ct: "conditionText n (k, v) = k @ '' '' @ sqlOp @ '' '' @ placeholder n" for n
    by (simp add: conditionText_def c)
  have bo: "boundOf (k, v) = bound"
    by (simp add: boundOf_def c)
  show ?case
    unfolding kv buildConditions_step [OF c] Cons.IH [OF rest]
    by (simp add: ct bo)
qed

lemma buildConditions_first_unsupported:
  assumes "\<exists>kv\<in>set kvs. comparison (snd kv) = None"
  shows "\<exists>kv\<in>set kvs. comparison (snd kv) = None
           \<and> buildConditions kvs cs vs = Inl (UnsupportedOperator (fst kv))"
  using assms
proof (induction kvs arbitrary: cs vs)
  case Nil
  then show ?case by simp
next
  case (Cons kv kvs)
  obtain k v where kv: "kv = (k, v)" by (cases kv)
  show ?case
  proof (cases "comparison v")
    case None
    have "buildConditions (kv # kvs) cs vs = Inl (UnsupportedOperator (fst kv))"
      unfolding kv fst_conv by (rule buildConditions_unsupported [OF None])
    with None kv show ?thesis by auto
  next
    case (Some a)
    then obtain sqlOp bound where c: "comparison v = Some (sqlOp, bound)" by (cases a) simp
    with Cons.prems kv have "\<exists>kv\<in>set kvs. comparison (snd kv) = None" by auto
    from Cons.IH [OF this] obtain kv' where "kv' \<in> set kvs" "comparison (snd kv') = None"
      "buildConditions kvs (cs @ [k @ '' '' @ sqlOp @ '' '' @ placeholder (length vs + 1)])
         (vs @ [bound]) = Inl (UnsupportedOperator (fst kv'))"
      by blast
    then show ?thesis
      unfolding kv buildConditions_step [OF c] by auto
  qed
qed


lemma searchDataInTable_issues:
  assumes "getProp arg ''tableName'' = Inr (Str t)" "getProp arg ''criteria'' = Inr cr"
    and "identifier_grammar t" "searchStatement t (orDefault cr (Obj [])) = Inr q"
  shows "searchDataInTable w arg =
           ([q], case answer w [] q of
                   Rows rows \<Rightarrow> Resolved (withData rows)
                 | Failed m \<Rightarrow> Resolved (failure ''Failed to search data.''))"
proof -
  have t: "searchDataInTable_try w (Str t) (orDefault cr (Obj [])) =
      ([q], case answer w [] q of Rows rows \<Rightarrow> Inr (withData rows) | Failed m \<Rightarrow> Inl (StoreError m))"
    using assms(3)
    by (simp add: searchDataInTable_try_def validateName_Str andThen_def assms(4) poolQuery_def
        split: response.splits)
  show ?thesis
    by (simp add: searchDataInTable_def assms(1,2) andThen_def t split: response.splits)
qed

lemma searchDataInTable_throws:
  assumes "getProp arg ''tableName'' = Inr (Str t)" "getProp arg ''criteria'' = Inr cr"
    and "identifier_grammar t" "searchStatement t (orDefault cr (Obj [])) = Inl e"
  shows "searchDataInTable w arg = ([], Resolved (failure ''Failed to search data.''))"
proof -
  have t: "searchDataInTable_try w (Str t) (orDefault cr (Obj [])) = ([], Inl e)"
    using assms(3)
    by (simp add: searchDataInTable_try_def validateName_Str andThen_def assms(4))
  show ?thesis
    by (simp add: searchDataInTable_def assms(1,2) andThen_def t)
qed

text \<open>
  C4.  Empty criteria give \<^verbatim>\<open>SELECT * FROM t\<close> with no \<^verbatim>\<open>WHERE\<close> clause.  Otherwise each
  entry asks for one comparison: equality for a scalar value, and for a mapping the first
  of \<^verbatim>\<open>$lt\<close>, \<^verbatim>\<open>$gt\<close>, \<^verbatim>\<open>$lte\<close>, \<^verbatim>\<open>$gte\<close>, \<^verbatim>\<open>$ne\<close> it has as a key.  When every entry
  has a comparison, the conditions are joined with \<^verbatim>\<open>AND\<close> in the order of the entries,
  the \<open>n\<close>-th condition using placeholder \<open>n\<close> counted from 1, bound to the \<open>n\<close>-th bound
  value.  When some entry is a mapping with none of the five operators, building the
  statement throws the unsupported-operator error for such an entry's key.  Called with a
  valid table name, \<^verbatim>\<open>searchDataInTable\<close> issues exactly that one statement and returns the
  rows the store answers (the failure envelope when the store fails); criteria left out
  are the empty criteria; and when building the statement throws, nothing is issued and
  the failure envelope is returned.
\<close>

theorem searchStatement_conditions:
  "searchStatement t (Obj []) = Inr \<lparr>sql = ''SELECT * FROM '' @ t, params = []\<rparr>
   \<and> (kvs \<noteq> [] \<and> (\<forall>kv\<in>set kvs. comparison (snd kv) \<noteq> None) \<longrightarrow>
        searchStatement t (Obj kvs) =
          Inr \<lparr>sql = ''SELECT * FROM '' @ t @ '' WHERE ''
                     @ intercalate '' AND '' (map (\<lambda>(n, kv). conditionText n kv) (enumerate 1 kvs)),
               params = map boundOf kvs\<rparr>)
   \<and> ((\<exists>kv\<in>set kvs. comparison (snd kv) = None) \<longrightarrow>
        (\<exists>kv\<in>set kvs. comparison (snd kv) = None
           \<and> searchStatement t (Obj kvs) = Inl (UnsupportedOperator (fst kv))))
   \<and> (identifier_grammar t \<and> searchStatement t cr = Inr q \<longrightarrow>
        fst (searchDataInTable_try w (Str t) cr) = [q])
   \<and> (identifier_grammar t \<and> getProp arg ''tableName'' = Inr (Str t)
        \<and> getProp arg ''criteria'' = Inr Undefined \<longrightarrow>
        searchDataInTable w arg =
          ([\<lparr>sql = ''SELECT * FROM '' @ t, params = []\<rparr>],
           case answer w [] \<lparr>sql = ''SELECT * FROM '' @ t, params = []\<rparr> of
             Rows rows \<Rightarrow> Resolved (withData rows)
           | Failed m \<Rightarrow> Resolved (failure ''Failed to search data.'')))
   \<and> (identifier_grammar t \<and> getProp arg ''tableName'' = Inr (Str t)
        \<and> getProp arg ''criteria'' = Inr (Obj kvs)
        \<and> (\<forall>kv\<in>set kvs. comparison (snd kv) \<noteq> None) \<longrightarrow>
        searchDataInTable w arg =
          ([\<lparr>sql = ''SELECT * FROM '' @ t
                    @ (if kvs = [] then []
                       else '' WHERE '' @ intercalate '' AND ''
                              (map (\<lambda>(n, kv). conditionText n kv) (enumerate 1 kvs))),
              params = map boundOf kvs\<rparr>],
           case answer w []
                  \<lparr>sql = ''SELECT * FROM '' @ t
                      @ (if kvs = [] then []
                         else '' WHERE '' @ intercalate '' AND ''
                                (map (\<lambda>(n, kv). conditionText n kv) (enumerate 1 kvs))),
                   params = map boundOf kvs\<rparr> of
             Rows rows \<Rightarrow> Resolved (withData rows)
           | Failed m \<Rightarrow> Resolved (failure ''Failed to search data.'')))
   \<and> (identifier_grammar t \<and> getProp arg ''tableName'' = Inr (Str t)
        \<and> getProp arg ''criteria'' = Inr (Obj kvs)
        \<and> (\<exists>kv\<in>set kvs. comparison (snd kv) = None) \<longrightarrow>
        searchDataInTable w arg = ([], Resolved (failure ''Failed to search data.'')))"
proof (intro conjI)
  show c1: "searchStatement t (Obj []) = Inr \<lparr>sql = ''SELECT * FROM '' @ t, params = []\<rparr>"
    by (simp add: searchStatement_def entries_def andThen_def)
  have c2: "searchStatement t (Obj kvs) =
          Inr \<lparr>sql = ''SELECT * FROM '' @ t @ '' WHERE ''
                     @ intercalate '' AND '' (map (\<lambda>(n, kv). conditionText n kv) (enumerate 1 kvs)),
               params = map boundOf kvs\<rparr>"
    if a: "kvs \<noteq> [] \<and> (\<forall>kv\<in>set kvs. comparison (snd kv) \<noteq> None)"
  proof -
    from a have "buildConditions kvs [] [] =
        Inr (map (\<lambda>(n, kv). conditionText n kv) (enumerate 1 kvs), map boundOf kvs)"
      using buildConditions_all [of kvs "[]" "[]"] by simp
    moreover from a have "enumerate (Suc 0) kvs \<noteq> []" by (cases kvs) simp_all
    ultimately show ?thesis
      by (simp add: searchStatement_def entries_def andThen_def)
  qed
  then show "kvs \<noteq> [] \<and> (\<forall>kv\<in>set kvs. comparison (snd kv) \<noteq> None) \<longrightarrow>
        searchStatement t (Obj kvs) =
          Inr \<lparr>sql = ''SELECT * FROM '' @ t @ '' WHERE ''
                     @ intercalate '' AND '' (map (\<lambda>(n, kv). conditionText n kv) (enumerate 1 kvs)),
               params = map boundOf kvs\<rparr>"
    by blast
  have c3: "\<exists>kv\<in>set kvs. comparison (snd kv) = None
           \<and> searchStatement t (Obj kvs) = Inl (UnsupportedOperator (fst kv))"
    if a: "\<exists>kv\<in>set kvs. comparison (snd kv) = None"
  proof -
    from buildConditions_first_unsupported [OF a, of "[]" "[]"]
    obtain kv where "kv \<in> set kvs" "comparison (snd kv) = None"
      "buildConditions kvs [] [] = Inl (UnsupportedOperator (fst kv))"
      by blast
    moreover from this(3) have "searchStatement t (Obj kvs) = Inl (UnsupportedOperator (fst kv))"
      by (simp add: searchStatement_def entries_def andThen_def)
    ultimately show ?thesis by blast
  qed
  then show "(\<exists>kv\<in>set kvs. comparison (snd kv) = None) \<longrightarrow>
        (\<exists>kv\<in>set kvs. comparison (snd kv) = None
           \<and> searchStatement t (Obj kvs) = Inl (UnsupportedOperator (fst kv)))"
    by blast
  show "identifier_grammar t \<and> searchStatement t cr = Inr q \<longrightarrow>
        fst (searchDataInTable_try w (Str t) cr) = [q]"
    by (simp add: searchDataInTable_try_def validateName_Str andThen_def poolQuery_def
        split: response.splits)
  show "identifier_grammar t \<and> getProp arg ''tableName'' = Inr (Str t)
        \<and> getProp arg ''criteria'' = Inr Undefined \<longrightarrow>
        searchDataInTable w arg =
          ([\<lparr>sql = ''SELECT * FROM '' @ t, params = []\<rparr>],
           case answer w [] \<lparr>sql = ''SELECT * FROM '' @ t, params = []\<rparr> of
             Rows rows \<Rightarrow> Resolved (withData rows)
           | Failed m \<Rightarrow> Resolved (failure ''Failed to search data.''))"
  proof
    assume a: "identifier_grammar t \<and> getProp arg ''tableName'' = Inr (Str t)
        \<and> getProp arg ''criteria'' = Inr Undefined"
    have "searchStatement t (orDefault Undefined (Obj [])) =
        Inr \<lparr>sql = ''SELECT * FROM '' @ t, params = []\<rparr>"
      by (simp add: orDefault_def c1)
    with a show "searchDataInTable w arg =
          ([\<lparr>sql = ''SELECT * FROM '' @ t, params = []\<rparr>],
           case answer w [] \<lparr>sql = ''SELECT * FROM '' @ t, params = []\<rparr> of
             Rows rows \<Rightarrow> Resolved (withData rows)
           | Failed m \<Rightarrow> Resolved (failure ''Failed to search data.''))"
      by (intro searchDataInTable_issues [where cr = Undefined]) simp_all
  qed
  show "identifier_grammar t \<and> getProp arg ''tableName'' = Inr (Str t)
        \<and> getProp arg ''criteria'' = Inr (Obj kvs)
        \<and> (\<forall>kv\<in>set kvs. comparison (snd kv) \<noteq> None) \<longrightarrow>
        searchDataInTable w arg =
          ([\<lparr>sql = ''SELECT * FROM '' @ t
                    @ (if kvs = [] then []
                       else '' WHERE '' @ intercalate '' AND ''
                              (map (\<lambda>(n, kv). conditionText n kv) (enumerate 1 kvs))),
              params = map boundOf kvs\<rparr>],
           case answer w []
                  \<lparr>sql = ''SELECT * FROM '' @ t
                      @ (if kvs = [] then []
                         else '' WHERE '' @ intercalate '' AND ''
                                (map (\<lambda>(n, kv). conditionText n kv) (enumerate 1 kvs))),
                   params = map boundOf kvs\<rparr> of
             Rows rows \<Rightarrow> Resolved (withData rows)
           | Failed m \<Rightarrow> Resolved (failure ''Failed to search data.''))"
  proof
    assume a: "identifier_grammar t \<and> getProp arg ''tableName'' = Inr (Str t)
        \<and> getProp arg ''criteria'' = Inr (Obj kvs)
        \<and> (\<forall>kv\<in>set kvs. comparison (snd kv) \<noteq> None)"
    have "searchStatement t (orDefault (Obj kvs) (Obj [])) =
        Inr \<lparr>sql = ''SELECT * FROM '' @ t
                    @ (if kvs = [] then []
                       else '' WHERE '' @ intercalate '' AND ''
                              (map (\<lambda>(n, kv). conditionText n kv) (enumerate 1 kvs))),
              params = map boundOf kvs\<rparr>"
    proof (cases "kvs = []")
      case True
      then show ?thesis by (simp add: orDefault_def c1)
    next
      case False
      with a c2 show ?thesis by (simp add: orDefault_def)
    qed
    with a show "searchDataInTable w arg =
          ([\<lparr>sql = ''SELECT * FROM '' @ t
                    @ (if kvs = [] then []
                       else '' WHERE '' @ intercalate '' AND ''
                              (map (\<lambda>(n, kv). conditionText n kv) (enumerate 1 kvs))),
              params = map boundOf kvs\<rparr>],
           case answer w []
                  \<lparr>sql = ''SELECT * FROM '' @ t
                      @ (if kvs = [] then []
                         else '' WHERE '' @ intercalate '' AND ''
                                (map (\<lambda>(n, kv). conditionText n kv) (enumerate 1 kvs))),
                   params = map boundOf kvs\<rparr> of
             Rows rows \<Rightarrow> Resolved (withData rows)
           | Failed m \<Rightarrow> Resolved (failure ''Failed to search data.''))"
      by (intro searchDataInTable_issues [where cr = "Obj kvs"]) simp_all
  qed
  show "identifier_grammar t \<and> getProp arg ''tableName'' = Inr (Str t)
        \<and> getProp arg ''criteria'' = Inr (Obj kvs)
        \<and> (\<exists>kv\<in>set kvs. comparison (snd kv) = None) \<longrightarrow>
        searchDataInTable w arg = ([], Resolved (failure ''Failed to search data.''))"
  proof
    assume a: "identifier_grammar t \<and> getProp arg ''tableName'' = Inr (Str t)
        \<and> getProp arg ''criteria'' = Inr (Obj kvs)
        \<and> (\<exists>kv\<in>set kvs. comparison (snd kv) = None)"
    then have ex: "\<exists>kv\<in>set kvs. comparison (snd kv) = None" by simp
    from c3 [OF ex] obtain kv :: "string \<times> jsval" where
      "searchStatement t (Obj kvs) = Inl (UnsupportedOperator (fst kv))"
      by blast
    then have "searchStatement t (orDefault (Obj kvs) (Obj [])) = Inl (UnsupportedOperator (fst kv))"
      by (simp add: orDefault_def)
    with a show "searchDataInTable w arg = ([], Resolved (failure ''Failed to search data.''))"
      by (intro searchDataInTable_throws [where cr = "Obj kvs"]) simp_all
  qed
qed

theorem searchStatement_conditions_witness:
  "searchStatement ''widgets''
      (Obj [(''id'', Obj [(''$gt'', Num 1), (''$lt'', Num 9)]), (''name'', Str ''bob'')])
     = Inr \<lparr>sql = ''SELECT * FROM widgets WHERE id < $1 AND name = $2'',
            params = [Num 9, Str ''bob'']\<rparr>
   \<and> searchStatement ''widgets'' (Obj [(''name'', Str ''bob''), (''id'', Obj [(''$in'', Num 1)])])
     = Inl (UnsupportedOperator ''id'')
   \<and> identifier_grammar ''widgets''
   \<and> fst (searchDataInTable_try emptyStore (Str ''widgets'')
            (Obj [(''id'', Obj [(''$gt'', Num 1), (''$lt'', Num 9)]), (''name'', Str ''bob'')]))
     = [\<lparr>sql = ''SELECT * FROM widgets WHERE id < $1 AND name = $2'',
          params = [Num 9, Str ''bob'']\<rparr>]
   \<and> searchDataInTable emptyStore
        (Obj [(''tableName'', Str ''widgets''),
              (''criteria'', Obj [(''id'', Obj [(''$gt'', Num 1), (''$lt'', Num 9)]),
                                  (''name'', Str ''bob'')])])
     = ([\<lparr>sql = ''SELECT * FROM widgets WHERE id < $1 AND name = $2'',
          params = [Num 9, Str ''bob'']\<rparr>],
        Resolved (withData []))
   \<and> searchDataInTable emptyStore (Obj [(''tableName'', Str ''widgets'')])
     = ([\<lparr>sql = ''SELECT * FROM widgets'', params = []\<rparr>], Resolved (withData []))
   \<and> searchDataInTable emptyStore
        (Obj [(''tableName'', Str ''widgets''),
              (''criteria'', Obj [(''name'', Str ''bob''), (''id'', Obj [(''$in'', Num 1)])])])
     = ([], Resolved (failure ''Failed to search data.''))"
proof -
  let ?good = "[(''id'', Obj [(''$gt'', Num 1), (''$lt'', Num 9)]), (''name'', Str ''bob'')]"
  let ?bad = "[(''name'', Str ''bob''), (''id'', Obj [(''$in'', Num 1)])]"
  let ?q = "\<lparr>sql = ''SELECT * FROM widgets WHERE id < $1 AND name = $2'',
            params = [Num 9, Str ''bob'']\<rparr>"
  let ?argG = "Obj [(''tableName'', Str ''widgets''), (''criteria'', Obj ?good)]"
  let ?argB = "Obj [(''tableName'', Str ''widgets''), (''criteria'', Obj ?bad)]"
  let ?arg0 = "Obj [(''tableName'', Str ''widgets'')]"
  have c1: "comparison (Obj [(''$gt'', Num 1), (''$lt'', Num 9)]) = Some (''<'', Num 9)"
    and c2: "comparison (Str ''bob'') = Some (''='', Str ''bob'')"
    and c3: "comparison (Obj [(''$in'', Num 1)]) = None"
    by (simp_all add: comparison_def lookup_def)
  have all: "\<forall>kv\<in>set ?good. comparison (snd kv) \<noteq> None"
    by (simp add: c1 c2)
  have g: "?good \<noteq> [] \<and> (\<forall>kv\<in>set ?good. comparison (snd kv) \<noteq> None)"
    by (simp add: c1 c2)
  have b: "\<exists>kv\<in>set ?bad. comparison (snd kv) = None"
    by (simp add: c2 c3)
  have i: "identifier_grammar ''widgets''"
    by (simp add: identifier_grammar_def is_letter_def)
  have sqlv: "''SELECT * FROM '' @ ''widgets'' @ '' WHERE ''
                     @ intercalate '' AND '' (map (\<lambda>(n, kv). conditionText n kv) (enumerate 1 ?good))
      = ''SELECT * FROM widgets WHERE id < $1 AND name = $2''"
    by code_simp
  have pv: "map boundOf ?good = [Num 9, Str ''bob'']"
    by (simp add: boundOf_def c1 c2)
  have pG: "getProp ?argG ''tableName'' = Inr (Str ''widgets'')"
    "getProp ?argG ''criteria'' = Inr (Obj ?good)"
    and pB: "getProp ?argB ''tableName'' = Inr (Str ''widgets'')"
    "getProp ?argB ''criteria'' = Inr (Obj ?bad)"
    and p0: "getProp ?arg0 ''tableName'' = Inr (Str ''widgets'')"
    "getProp ?arg0 ''criteria'' = Inr Undefined"
    by (simp_all add: getProp_def)
  from searchStatement_conditions [where t = "''widgets''" and kvs = ?good] g
  have "searchStatement ''widgets'' (Obj ?good) =
          Inr \<lparr>sql = ''SELECT * FROM '' @ ''widgets'' @ '' WHERE ''
                     @ intercalate '' AND '' (map (\<lambda>(n, kv). conditionText n kv) (enumerate 1 ?good)),
               params = map boundOf ?good\<rparr>"
    by blast
  then have r1: "searchStatement ''widgets'' (Obj ?good) = Inr ?q"
    by (simp only: sqlv pv)
  from searchStatement_conditions [where t = "''widgets''" and kvs = ?bad] b
  obtain kv :: "string \<times> jsval" where kv: "kv \<in> set ?bad" "comparison (snd kv) = None"
    "searchStatement ''widgets'' (Obj ?bad) = Inl (UnsupportedOperator (fst kv))"
    by blast
  from kv(1,2) have "fst kv = ''id''" using c2 by auto
  with kv(3) have r2: "searchStatement ''widgets'' (Obj ?bad) = Inl (UnsupportedOperator ''id'')"
    by simp
  from searchStatement_conditions [where t = "''widgets''" and cr = "Obj ?good" and q = ?q
      and w = emptyStore] i r1
  have r3: "fst (searchDataInTable_try emptyStore (Str ''widgets'') (Obj ?good)) = [?q]"
    by blast
  have ne: "(?good = []) = False" by simp
  from searchStatement_conditions [where t = "''widgets''" and kvs = ?good and arg = ?argG
      and w = emptyStore] i pG all
  have "searchDataInTable emptyStore ?argG =
          ([\<lparr>sql = ''SELECT * FROM '' @ ''widgets''
                    @ (if ?good = [] then []
                       else '' WHERE '' @ intercalate '' AND ''
                              (map (\<lambda>(n, kv). conditionText n kv) (enumerate 1 ?good))),
              params = map boundOf ?good\<rparr>],
           case answer emptyStore []
                  \<lparr>sql = ''SELECT * FROM '' @ ''widgets''
                      @ (if ?good = [] then []
                         else '' WHERE '' @ intercalate '' AND ''
                                (map (\<lambda>(n, kv). conditionText n kv) (enumerate 1 ?good))),
                   params = map boundOf ?good\<rparr> of
             Rows rows \<Rightarrow> Resolved (withData rows)
           | Failed m \<Rightarrow> Resolved (failure ''Failed to search data.''))"
    by blast
  then have r4: "searchDataInTable emptyStore ?argG = ([?q], Resolved (withData []))"
    unfolding ne if_False sqlv pv by (simp add: emptyStore_def)
  from searchStatement_conditions [where t = "''widgets''" and arg = ?arg0 and w = emptyStore] i p0
  have "searchDataInTable emptyStore ?arg0 =
          ([\<lparr>sql = ''SELECT * FROM '' @ ''widgets'', params = []\<rparr>],
           case answer emptyStore [] \<lparr>sql = ''SELECT * FROM '' @ ''widgets'', params = []\<rparr> of
             Rows rows \<Rightarrow> Resolved (withData rows)
           | Failed m \<Rightarrow> Resolved (failure ''Failed to search data.''))"
    by blast
  then have r5: "searchDataInTable emptyStore ?arg0
      = ([\<lparr>sql = ''SELECT * FROM widgets'', params = []\<rparr>], Resolved (withData []))"
    by (simp add: emptyStore_def)
  from searchStatement_conditions [where t = "''widgets''" and kvs = ?bad and arg = ?argB
      and w = emptyStore] i pB b
  have r6: "searchDataInTable emptyStore ?argB = ([], Resolved (failure ''Failed to search data.''))"
    by blast
  from r1 r2 i r3 r4 r5 r6 show ?thesis by (intro conjI)
qed


section \<open>Schema changes: the uniqueness constraint\<close>








section \<open>The envelope of every operation\<close>

lemma uniform_simps:
  "uniform (failure m)" "uniform (succeeded m)" "uniform (withData rs)" "uniform (withColumns cs)"
  by (simp_all add: uniform_def failure_def succeeded_def withData_def withColumns_def)

lemma poolQuery_cases:
  obtains rows where "poolQuery w issued q = (issued @ [q], Inr rows)"
  | m where "poolQuery w issued q = (issued @ [q], Inl (StoreError m))"
  by (cases "answer w issued q") (simp_all add: poolQuery_def)

lemma createDynamicTable_try_uniform:
  assumes "createDynamicTable_try w n c = (issued, Inr env)"
  shows "uniform env"
  using assms
  by (auto simp: createDynamicTable_try_def poolQuery_def uniform_simps
      split: sum.splits jsval.splits if_splits response.splits)

lemma addDataToTable_try_uniform:
  assumes "addDataToTable_try w n d = (issued, Inr env)"
  shows "uniform env"
  using assms
  by (auto simp: addDataToTable_try_def poolQuery_def uniform_simps
      split: sum.splits if_splits response.splits)

lemma removeDataFromTable_try_uniform:
  assumes "removeDataFromTable_try w n d = (issued, Inr env)"
  shows "uniform env"
  using assms
  by (auto simp: removeDataFromTable_try_def poolQuery_def uniform_simps
      split: sum.splits if_splits response.splits)

lemma searchDataInTable_try_uniform:
  assumes "searchDataInTable_try w n d = (issued, Inr env)"
  shows "uniform env"
  using assms
  by (auto simp: searchDataInTable_try_def poolQuery_def uniform_simps
      split: sum.splits if_splits response.splits)

lemma joinTables_try_uniform:
  assumes "joinTables_try w a b c d = (issued, Inr env)"
  shows "uniform env"
  using assms
  by (auto simp: joinTables_try_def poolQuery_def uniform_simps
      split: sum.splits response.splits)


lemma getTableColumns_try_uniform:
  assumes "getTableColumns_try w n = (issued, Inr env)"
  shows "uniform env"
proof (cases "checkTableExists w [] n")
  case (Pair issued0 r)
  show ?thesis
  proof (cases r)
    case (Inl e)
    with Pair assms show ?thesis by (simp add: getTableColumns_try_def)
  next
    case (Inr ex)
    show ?thesis
    proof (cases "truthy ex")
      case False
      with Pair Inr assms show ?thesis
        by (auto simp: getTableColumns_try_def andThen_def uniform_simps split: sum.splits)
    next
      case True
      with Pair Inr assms show ?thesis
        by (auto simp: getTableColumns_try_def andThen_def poolQuery_def uniform_simps
            split: sum.splits response.splits)
    qed
  qed
qed

lemma updateDataInTable_try_uniform:
  assumes "updateDataInTable_try w n u c = (issued, Inr env)"
  shows "\<exists>rows. env = withData rows"
  using assms
  unfolding updateDataInTable_try_def
  by (auto simp: andThen_def split: sum.splits prod.splits)

lemma resolved_uniform:
  assumes "\<And>issued env. t = (issued, Inr env) \<Longrightarrow> uniform env"
  shows "returnsEnvelope
           (case t of (issued, Inr env) \<Rightarrow> (issued, Resolved env)
                    | (issued, Inl e) \<Rightarrow> (issued, Resolved (failure (h e))))"
proof (cases t)
  case (Pair issued r)
  with assms show ?thesis
    by (cases r) (simp_all add: returnsEnvelope_def uniform_simps)
qed


text \<open>
  C6 (as amended).  Called with an argument that is neither \<^verbatim>\<open>null\<close> nor \<^verbatim>\<open>undefined\<close>,
  whatever its properties are (a \<^verbatim>\<open>null\<close> criteria, a \<^verbatim>\<open>null\<close> join type, updates that are
  no array) and whatever the store answers, insert, update, search, remove and join return
  a uniform envelope and throw nothing; so do table creation and the column listing when
  the name they are given converts to a string, as every string, number, boolean,
  \<^verbatim>\<open>null\<close> and \<^verbatim>\<open>undefined\<close> does.  What the helpers throw inside the \<^verbatim>\<open>try\<close> block
  comes back as the message of a failure envelope.
\<close>

theorem operations_return_envelopes:
  assumes "arg \<noteq> Undefined" "arg \<noteq> Null"
  shows "returnsEnvelope (addDataToTable w arg)
       \<and> returnsEnvelope (updateDataInTable w arg)
       \<and> returnsEnvelope (searchDataInTable w arg)
       \<and> returnsEnvelope (removeDataFromTable w arg)
       \<and> returnsEnvelope (joinTables w arg)
       \<and> (getProp arg ''schemaName'' = Inr name \<and> toString name = Inr s
            \<longrightarrow> returnsEnvelope (createDynamicTable w arg))
       \<and> (getProp arg ''tableName'' = Inr name \<and> toString name = Inr s
            \<longrightarrow> returnsEnvelope (getTableColumns w arg))"
proof (intro conjI impI)
  note p = getProp_defined [OF assms]
  obtain tn where tn: "getProp arg ''tableName'' = Inr tn" using p by blast
  show "returnsEnvelope (addDataToTable w arg)"
  proof -
    obtain d where d: "getProp arg ''data'' = Inr d" using p by blast
    show ?thesis
    proof (cases "addDataToTable_try w tn d")
      case (Pair issued r)
      then show ?thesis
        using addDataToTable_try_uniform [of w tn d issued]
        by (cases r) (simp_all add: addDataToTable_def tn d andThen_def returnsEnvelope_def
            uniform_simps)
    qed
  qed
  show "returnsEnvelope (updateDataInTable w arg)"
  proof -
    obtain u where u: "getProp arg ''updates'' = Inr u" using p by blast
    obtain c where c: "getProp arg ''schemaChanges'' = Inr c" using p by blast
    show ?thesis
    proof (cases "updateDataInTable_try w tn (orDefault u (Arr [])) (orDefault c (Arr []))")
      case (Pair issued r)
      show ?thesis
      proof (cases r)
        case (Inl e)
        with Pair show ?thesis
          by (simp add: updateDataInTable_def tn u c andThen_def returnsEnvelope_def uniform_simps)
      next
        case (Inr env)
        with Pair obtain rows where "env = withData rows"
          using updateDataInTable_try_uniform by blast
        with Pair Inr show ?thesis
          by (simp add: updateDataInTable_def tn u c andThen_def returnsEnvelope_def uniform_simps)
      qed
    qed
  qed
  show "returnsEnvelope (searchDataInTable w arg)"
  proof -
    obtain c where c: "getProp arg ''criteria'' = Inr c" using p by blast
    show ?thesis
    proof (cases "searchDataInTable_try w tn (orDefault c (Obj []))")
      case (Pair issued r)
      then show ?thesis
        using searchDataInTable_try_uniform [of w tn "orDefault c (Obj [])" issued]
        by (cases r) (simp_all add: searchDataInTable_def tn c andThen_def returnsEnvelope_def
            uniform_simps)
    qed
  qed
  show "returnsEnvelope (removeDataFromTable w arg)"
  proof -
    obtain i where i: "getProp arg ''ids'' = Inr i" using p by blast
    show ?thesis
    proof (cases "removeDataFromTable_try w tn i")
      case (Pair issued r)
      then show ?thesis
        using removeDataFromTable_try_uniform [of w tn i issued]
        by (cases r) (simp_all add: removeDataFromTable_def tn i andThen_def returnsEnvelope_def
            uniform_simps)
    qed
  qed
  show "returnsEnvelope (joinTables w arg)"
  proof -
    obtain t1 where t1: "getProp arg ''table1'' = Inr t1" using p by blast
    obtain t2 where t2: "getProp arg ''table2'' = Inr t2" using p by blast
    obtain jt where jt: "getProp arg ''joinType'' = Inr jt" using p by blast
    obtain oc where oc: "getProp arg ''onCondition'' = Inr oc" using p by blast
    show ?thesis
    proof (cases "joinTables_try w t1 t2 (orDefault jt (Str ''INNER'')) oc")
      case (Pair issued r)
      then show ?thesis
        using joinTables_try_uniform [of w t1 t2 "orDefault jt (Str ''INNER'')" oc issued]
        by (cases r) (simp_all add: joinTables_def t1 t2 jt oc andThen_def returnsEnvelope_def
            uniform_simps)
    qed
  qed
next
  assume a: "getProp arg ''schemaName'' = Inr name \<and> toString name = Inr s"
  obtain c where c: "getProp arg ''columns'' = Inr c"
    using getProp_defined [OF assms] by blast
  show "returnsEnvelope (createDynamicTable w arg)"
  proof (cases "createDynamicTable_try w name c")
    case (Pair issued r)
    then show ?thesis
      using createDynamicTable_try_uniform [of w name c issued] a
      by (cases r) (simp_all add: createDynamicTable_def c andThen_def returnsEnvelope_def
          uniform_simps)
  qed
next
  assume a: "getProp arg ''tableName'' = Inr name \<and> toString name = Inr s"
  show "returnsEnvelope (getTableColumns w arg)"
  proof (cases "getTableColumns_try w name")
    case (Pair issued r)
    then show ?thesis
      using getTableColumns_try_uniform [of w name issued] a
      by (cases r) (simp_all add: getTableColumns_def returnsEnvelope_def uniform_simps)
  qed
qed

text \<open>
  Called with \<^verbatim>\<open>undefined\<close>, each operation rejects: its parameter is destructured before
  the \<^verbatim>\<open>try\<close> block.  Table creation also rejects when the schema name is an object with
  an own \<^verbatim>\<open>toString\<close> property: the message of its \<^verbatim>\<open>catch\<close> block interpolates the name.
\<close>

theorem operations_return_envelopes_counterexample:
  "createDynamicTable emptyStore Undefined
     = ([], Rejected (TypeError ''Cannot read properties of undefined (reading schemaName)''))
   \<and> \<not> returnsEnvelope (createDynamicTable emptyStore Undefined)
   \<and> \<not> returnsEnvelope (getTableColumns emptyStore Undefined)
   \<and> \<not> returnsEnvelope (addDataToTable emptyStore Undefined)
   \<and> \<not> returnsEnvelope (updateDataInTable emptyStore Undefined)
   \<and> \<not> returnsEnvelope (searchDataInTable emptyStore Undefined)
   \<and> \<not> returnsEnvelope (removeDataFromTable emptyStore Undefined)
   \<and> \<not> returnsEnvelope (joinTables emptyStore Undefined)
   \<and> createDynamicTable emptyStore
         (Obj [(''schemaName'', Obj [(''toString'', Num 1)]), (''columns'', Arr [])])
       = ([], Rejected (TypeError ''Cannot convert object to primitive value''))"
  by code_simp


theorem operations_return_envelopes_witness:
  "returnsEnvelope (searchDataInTable emptyStore
      (Obj [(''tableName'', Str ''widgets''), (''criteria'', Null)]))
   \<and> returnsEnvelope (joinTables emptyStore
      (Obj [(''table1'', Str ''a''), (''table2'', Str ''b''), (''joinType'', Null),
            (''onCondition'', Str ''a.id = b.id'')]))
   \<and> returnsEnvelope (updateDataInTable emptyStore
      (Obj [(''tableName'', Str ''widgets''), (''updates'', Num 5)]))
   \<and> getProp (Obj [(''tableName'', Str ''widgets'')]) ''tableName'' = Inr (Str ''widgets'')
   \<and> toString (Str ''widgets'') = Inr ''widgets''
   \<and> returnsEnvelope (getTableColumns (failingStore ''connection lost'')
      (Obj [(''tableName'', Str ''widgets'')]))
   \<and> getProp (Obj [(''schemaName'', Str ''widgets''), (''columns'', Null)]) ''schemaName''
       = Inr (Str ''widgets'')
   \<and> returnsEnvelope (createDynamicTable emptyStore
      (Obj [(''schemaName'', Str ''widgets''), (''columns'', Null)]))
   \<and> snd (getTableColumns (failingStore ''connection lost'') (Obj [(''tableName'', Str ''widgets'')]))
       = Resolved (failure ''Error fetching columns: Error checking table existence: connection lost'')
   \<and> snd (updateDataInTable emptyStore
        (Obj [(''tableName'', Str ''widgets''),
              (''schemaChanges'', Arr [Obj [(''column'', Str ''email''), (''constraint'', Str ''PRIMARY'')]])]))
       = Resolved (failure ''Unsupported constraint: PRIMARY'')"
proof -
  let ?a1 = "Obj [(''tableName'', Str ''widgets''), (''criteria'', Null)]"
  let ?a2 = "Obj [(''table1'', Str ''a''), (''table2'', Str ''b''), (''joinType'', Null),
            (''onCondition'', Str ''a.id = b.id'')]"
  let ?a3 = "Obj [(''tableName'', Str ''widgets''), (''updates'', Num 5)]"
  let ?a4 = "Obj [(''tableName'', Str ''widgets'')]"
  let ?a5 = "Obj [(''schemaName'', Str ''widgets''), (''columns'', Null)]"
  have n1: "?a1 \<noteq> Undefined" "?a1 \<noteq> Null" and n2: "?a2 \<noteq> Undefined" "?a2 \<noteq> Null"
    and n3: "?a3 \<noteq> Undefined" "?a3 \<noteq> Null" and n4: "?a4 \<noteq> Undefined" "?a4 \<noteq> Null"
    and n5: "?a5 \<noteq> Undefined" "?a5 \<noteq> Null"
    by simp_all
  have g4: "getProp ?a4 ''tableName'' = Inr (Str ''widgets'')"
    and g5: "getProp ?a5 ''schemaName'' = Inr (Str ''widgets'')"
    by (simp_all add: getProp_def)
  have ts: "toString (Str ''widgets'') = Inr ''widgets''" by simp
  from operations_return_envelopes [OF n1, where w = emptyStore]
  have r1: "returnsEnvelope (searchDataInTable emptyStore ?a1)" by blast
  from operations_return_envelopes [OF n2, where w = emptyStore]
  have r2: "returnsEnvelope (joinTables emptyStore ?a2)" by blast
  from operations_return_envelopes [OF n3, where w = emptyStore]
  have r3: "returnsEnvelope (updateDataInTable emptyStore ?a3)" by blast
  from operations_return_envelopes [OF n4, where w = "failingStore ''connection lost''"
      and name = "Str ''widgets''" and s = "''widgets''"] g4 ts
  have r4: "returnsEnvelope (getTableColumns (failingStore ''connection lost'') ?a4)" by blast
  from operations_return_envelopes [OF n5, where w = emptyStore
      and name = "Str ''widgets''" and s = "''widgets''"] g5 ts
  have r5: "returnsEnvelope (createDynamicTable emptyStore ?a5)" by blast
  have e1: "snd (getTableColumns (failingStore ''connection lost'') ?a4)
       = Resolved (failure ''Error fetching columns: Error checking table existence: connection lost'')"
    by code_simp
  have e2: "snd (updateDataInTable emptyStore
        (Obj [(''tableName'', Str ''widgets''),
              (''schemaChanges'', Arr [Obj [(''column'', Str ''email''), (''constraint'', Str ''PRIMARY'')]])]))
       = Resolved (failure ''Unsupported constraint: PRIMARY'')"
    by code_simp
  from r1 r2 r3 g4 ts r4 g5 r5 e1 e2 show ?thesis by (intro conjI)
qed

end
